theory Spec2Isabelle
  imports Main
begin

section \<open>Values, errors and the Node platform\<close>

text \<open>
  The program is \<^verbatim>\<open>packages/sst/support/nodejs-runtime/index.ts\<close>: a module whose
  top level resolves a handler, and then polls a control endpoint for invocations forever.
  Everything it does to the outside world is an HTTP request, a timer, a log line or the
  end of the process. The model keeps these as a trace of events and a final status.

  Time is counted in milliseconds and passes only while the program is suspended at an
  \<^verbatim>\<open>await\<close>. A value of type \<open>'v\<close> is any JavaScript value a handler may
  receive or return.
\<close>

type_synonym ms = nat

text \<open>What \<^verbatim>\<open>ex.message\<close> and \<^verbatim>\<open>ex.stack\<close> give for an error object or a
  primitive: a string, or \<^verbatim>\<open>undefined\<close>.\<close>

record exn =
  message :: "string option"
  stack :: "string option"

text \<open>What is thrown, as a \<^verbatim>\<open>catch (ex: any)\<close> block meets it: a value whose
  \<^verbatim>\<open>message\<close> and \<^verbatim>\<open>stack\<close> can be read, or a value from which the
  report cannot be built, because evaluating \<^verbatim>\<open>ex.message\<close> or
  \<^verbatim>\<open>ex.stack?.split("\n")\<close> throws the given error: so it is for \<^verbatim>\<open>null\<close>
  and \<^verbatim>\<open>undefined\<close>, and for a stack that is not a string.\<close>

datatype thrown = Readable exn | Unreadable exn

text \<open>The object literal \<^verbatim>\<open>{errorType, errorMessage, trace}\<close> of lines 78-82 and
  126-130.\<close>

record error_payload =
  errorType :: string
  errorMessage :: "string option"
  trace :: "string list option"

text \<open>The argument of \<^verbatim>\<open>fetch\<close> (lines 19-24) and what its promise resolves to
  (lines 25-29). Headers are association lists, looked up by name.\<close>

record req =
  path :: string
  "method" :: string
  headers :: "(string \<times> string) list"
  body :: "string option"

record response =
  statusCode :: nat
  res_headers :: "(string \<times> string) list"
  res_body :: string

text \<open>How an awaited \<^verbatim>\<open>fetch\<close> ends: the promise resolves after some time (the
  \<^verbatim>\<open>end\<close> event, line 43), rejects after some time with the error of the
  \<^verbatim>\<open>error\<close> event (line 52), or stays pending forever.\<close>

datatype reply = Resolve ms response | Reject ms exn | Pending

text \<open>The object of lines 95-98 and 106-109. It is handed to the handler, which may
  assign its properties; lines 121 and 138 read \<^verbatim>\<open>context.awsRequestId\<close> after the
  call.\<close>

record lambda_context =
  awsRequestId :: "string option"
  invokedFunctionArn :: "string option"

text \<open>How \<^verbatim>\<open>await fn(request, context)\<close> ends: with a value or a thrown value after
  some time suspended, together with the context object as the handler left it; with a
  promise that never settles; or in a synchronous loop that never gives control back to
  the event loop.\<close>

datatype 'v outcome =
  Returns ms 'v lambda_context
  | Throws ms thrown lambda_context
  | Unsettled
  | Spins

text \<open>An export of the loaded module, as the program uses it: \<^verbatim>\<open>!fn\<close> tells a falsy
  value from the others, and calling a value that is not a function throws. A function may
  keep state between calls, so its outcome depends on the number of earlier calls too.\<close>

datatype 'v export =
  Falsy
  | Truthy
  | Function "nat \<Rightarrow> 'v \<Rightarrow> lambda_context \<Rightarrow> 'v outcome"

text \<open>The result of \<^verbatim>\<open>path.parse\<close>, and the \<^verbatim>\<open>workerData\<close> the process is
  started with.\<close>

record parsed_path =
  dir :: string
  name :: string
  ext :: string

record input =
  handler :: string
  out :: string
  url :: string

text \<open>
  The library functions the program calls, taken as parameters: \<^verbatim>\<open>path.parse\<close>,
  \<^verbatim>\<open>path.join\<close>, \<^verbatim>\<open>fs.existsSync\<close>, \<^verbatim>\<open>url.pathToFileURL\<close>, dynamic
  \<^verbatim>\<open>import\<close> (the exports in the order of \<^verbatim>\<open>Object.keys\<close>, or what the module
  threw), \<^verbatim>\<open>JSON.parse\<close> (\<open>None\<close> is a \<^verbatim>\<open>SyntaxError\<close>),
  \<^verbatim>\<open>JSON.stringify\<close> of a handler result (the text, \<open>None\<close> for
  \<^verbatim>\<open>undefined\<close>, or the \<^verbatim>\<open>TypeError\<close> thrown for a value that cannot be
  serialised), \<^verbatim>\<open>JSON.stringify\<close> of an error report, which is an object of strings
  and always has a text, and the stack trace the engine records in an error made with a
  given message.
\<close>

record 'v platform =
  path_parse :: "string \<Rightarrow> parsed_path"
  path_join :: "string list \<Rightarrow> string"
  existsSync :: "string \<Rightarrow> bool"
  pathToFileURL :: "string \<Rightarrow> exn + string"
  import_module :: "string \<Rightarrow> thrown + (string \<times> 'v export) list"
  json_parse :: "string \<Rightarrow> 'v option"
  json_stringify :: "'v \<Rightarrow> exn + string option"
  stringify_report :: "error_payload \<Rightarrow> string"
  stack_of :: "string \<Rightarrow> string"

text \<open>What the process does, in order (\<open>Settled r\<close>: the promise of the
  \<^verbatim>\<open>fetch\<close> in flight settles and the program goes on), and how the execution
  stands at the end of the observed replies: still \<open>Running\<close> (awaiting a reply the
  script does not hold), ended by \<^verbatim>\<open>process.exit\<close>, ended by an exception nothing
  catches, \<open>Hung\<close> on a promise that never settles with no timer armed, or
  \<open>Blocked\<close> inside a handler that spins.\<close>

datatype 'v event =
  Fetch string req
  | SetTimeout ms
  | ClearTimeout
  | SetGlobalRequestId "string option"
  | Invoke nat 'v lambda_context
  | Settled reply
  | ConsoleError exn
  | Sleep ms

datatype status = Running | Exited nat | Uncaught exn | Hung | Blocked

text \<open>Node ends a process (or worker) whose top-level \<^verbatim>\<open>await\<close> rejects with code 1.\<close>

fun exit_code :: "status \<Rightarrow> nat option" where
  "exit_code (Exited c) = Some c"
| "exit_code (Uncaught e) = Some 1"
| "exit_code Running = None"
| "exit_code Hung = None"
| "exit_code Blocked = None"

section \<open>Small JavaScript idioms\<close>

text \<open>A template literal prints \<^verbatim>\<open>undefined\<close> for a missing value.\<close>

fun tmpl :: "string option \<Rightarrow> string" where
  "tmpl None = ''undefined''"
| "tmpl (Some s) = s"

text \<open>\<^verbatim>\<open>s.split("\n")\<close>: the pieces between line feeds; one piece when there is none.\<close>

fun split_nl :: "string \<Rightarrow> string list" where
  "split_nl [] = [[]]"
| "split_nl (c # cs) =
     (if c = CHR 0x0A then [] # split_nl cs
      else (case split_nl cs of l # ls \<Rightarrow> (c # l) # ls | [] \<Rightarrow> [[c]]))"

text \<open>\<^verbatim>\<open>keys.join(", ")\<close>.\<close>

fun join_comma :: "string list \<Rightarrow> string" where
  "join_comma [] = []"
| "join_comma [k] = k"
| "join_comma (k # k' # ks) = k @ '', '' @ join_comma (k' # ks)"

text \<open>\<^verbatim>\<open>s.substring(1)\<close>.\<close>

definition substring1 :: "string \<Rightarrow> string" where
  "substring1 s = drop 1 s"

text \<open>The report built in both \<^verbatim>\<open>catch (ex: any)\<close> blocks, for a value that can be
  read.\<close>

definition error_report :: "exn \<Rightarrow> error_payload" where
  "error_report ex =
     \<lparr>errorType = ''Error'', errorMessage = message ex,
      trace = map_option split_nl (stack ex)\<rparr>"

text \<open>\<^verbatim>\<open>new Error(msg)\<close>, and the \<^verbatim>\<open>TypeError\<close>s the engine throws.\<close>

definition js_error :: "'v platform \<Rightarrow> string \<Rightarrow> exn" where
  "js_error P msg = \<lparr>message = Some msg, stack = Some (stack_of P msg)\<rparr>"

definition json_headers :: "(string \<times> string) list" where
  "json_headers = [(''Content-Type'', ''application/json'')]"

section \<open>Handler resolution (lines 9-15 and 58-69)\<close>

definition extensions :: "string list" where
  "extensions = [''.js'', ''.jsx'', ''.mjs'', ''.cjs'']"

definition candidates :: "'v platform \<Rightarrow> input \<Rightarrow> string list" where
  "candidates P inp =
     (let parsed = path_parse P (handler inp)
      in map (\<lambda>e. path_join P [out inp, dir parsed, name parsed @ e]) extensions)"

definition handler_file :: "'v platform \<Rightarrow> input \<Rightarrow> string option" where
  "handler_file P inp = List.find (existsSync P) (candidates P inp)"

definition export_name :: "'v platform \<Rightarrow> input \<Rightarrow> string" where
  "export_name P inp = substring1 (ext (path_parse P (handler inp)))"

definition not_found_message :: "string \<Rightarrow> string \<Rightarrow> string list \<Rightarrow> string" where
  "not_found_message h locator keys =
     ''Function \"'' @ h @ ''\" not found in \"'' @ locator @ ''\". Found '' @ join_comma keys"

text \<open>\<^verbatim>\<open>mod[handler]\<close>, with \<^verbatim>\<open>undefined\<close> (falsy) for a name the module does not
  export.\<close>

definition lookup_export :: "(string \<times> 'v export) list \<Rightarrow> string \<Rightarrow> 'v export" where
  "lookup_export m h = (case map_of m h of None \<Rightarrow> Falsy | Some x \<Rightarrow> x)"

text \<open>The body of the \<^verbatim>\<open>try\<close> of lines 58-70: the handler, or what was thrown.
  When no candidate exists, \<^verbatim>\<open>file\<close> is \<^verbatim>\<open>undefined\<close> and
  \<^verbatim>\<open>url.pathToFileURL\<close> throws a \<^verbatim>\<open>TypeError\<close>.\<close>

definition undefined_path_error :: "'v platform \<Rightarrow> exn" where
  "undefined_path_error P =
     js_error P ''The \"path\" argument must be of type string. Received undefined''"

definition resolve :: "'v platform \<Rightarrow> input \<Rightarrow> thrown + 'v export" where
  "resolve P inp =
     (case handler_file P inp of
        None \<Rightarrow> Inl (Readable (undefined_path_error P))
      | Some f \<Rightarrow>
          (case pathToFileURL P f of
             Inl ex \<Rightarrow> Inl (Readable ex)
           | Inr href \<Rightarrow>
               (case import_module P href of
                  Inl x \<Rightarrow> Inl x
                | Inr m \<Rightarrow>
                    (let h = export_name P inp; fn = lookup_export m h
                     in (case fn of
                           Falsy \<Rightarrow>
                             Inl (Readable (js_error P
                                    (not_found_message h (handler inp) (map fst m))))
                         | _ \<Rightarrow> Inr fn)))))"

section \<open>The control client's requests\<close>

definition init_error_req :: "'v platform \<Rightarrow> exn \<Rightarrow> req" where
  "init_error_req P ex =
     \<lparr>path = ''/runtime/init/error'', method = ''POST'', headers = json_headers,
      body = Some (stringify_report P (error_report ex))\<rparr>"

definition next_req :: req where
  "next_req = \<lparr>path = ''/runtime/invocation/next'', method = ''GET'', headers = [],
      body = None\<rparr>"

definition error_req :: "'v platform \<Rightarrow> lambda_context \<Rightarrow> exn \<Rightarrow> req" where
  "error_req P context ex =
     \<lparr>path = ''/runtime/invocation/'' @ tmpl (awsRequestId context) @ ''/error'',
      method = ''POST'', headers = json_headers,
      body = Some (stringify_report P (error_report ex))\<rparr>"

text \<open>The argument of \<^verbatim>\<open>fetch\<close> at lines 137-144, or the \<^verbatim>\<open>TypeError\<close> that
  \<^verbatim>\<open>JSON.stringify(response)\<close> throws while it is built. When the text is
  \<^verbatim>\<open>undefined\<close>, no body is written (line 53).\<close>

definition response_req :: "'v platform \<Rightarrow> lambda_context \<Rightarrow> 'v \<Rightarrow> exn + req" where
  "response_req P context response =
     (case json_stringify P response of
        Inl te \<Rightarrow> Inl te
      | Inr b \<Rightarrow>
          Inr \<lparr>path = ''/runtime/invocation/'' @ tmpl (awsRequestId context) @ ''/response'',
               method = ''POST'', headers = json_headers, body = b\<rparr>)"

text \<open>\<^verbatim>\<open>fetch(req)\<close> sends the request to \<^verbatim>\<open>input.url + req.path\<close> (line 31).\<close>

definition fetch :: "input \<Rightarrow> req \<Rightarrow> 'v event" where
  "fetch inp r = Fetch (url inp @ path r) r"

section \<open>The invocation loop (lines 87-151)\<close>

definition watchdog_ms :: ms where
  "watchdog_ms = 1000 * 60 * 15"

text \<open>\<^verbatim>\<open>fn(request, context)\<close>: calling a value that is not a function throws a
  \<^verbatim>\<open>TypeError\<close> at once and leaves the context as it is.\<close>

definition call ::
  "'v platform \<Rightarrow> 'v export \<Rightarrow> nat \<Rightarrow> 'v \<Rightarrow> lambda_context \<Rightarrow> 'v outcome" where
  "call P fn n request context =
     (case fn of
        Function f \<Rightarrow> f n request context
      | _ \<Rightarrow> Throws 0 (Readable (js_error P ''fn is not a function'')) context)"

text \<open>The context of lines 106-109, from the headers of the poll's response.\<close>

definition request_id_header :: string where
  "request_id_header = ''lambda-runtime-aws-request-id''"

definition arn_header :: string where
  "arn_header = ''lambda-runtime-invoked-function-arn''"

definition context_of :: "response \<Rightarrow> lambda_context" where
  "context_of result =
     \<lparr>awsRequestId = map_of (res_headers result) request_id_header,
      invokedFunctionArn = map_of (res_headers result) arn_header\<rparr>"

text \<open>The top of an iteration after the first (lines 89-105): the timer of the iteration
  before is cleared, a new one is set, and the poll is sent.\<close>

definition next_poll :: "input \<Rightarrow> 'v event list" where
  "next_poll inp = [ClearTimeout, SetTimeout watchdog_ms, fetch inp next_req]"

definition prepend ::
  "'v event list \<Rightarrow> 'v event list \<times> status \<Rightarrow> 'v event list \<times> status" where
  "prepend evs r = (evs @ fst r, snd r)"

text \<open>
  The retry loop of lines 135-150 when \<^verbatim>\<open>JSON.stringify(response)\<close> throws, with
  \<open>t\<close> milliseconds left on the timer: the error is caught and logged before any
  request is made, the loop waits 500 ms and tries again with the same value, until the
  timer ends the process during one of the waits.
\<close>

function stringify_failures :: "exn \<Rightarrow> ms \<Rightarrow> 'v event list" where
  "stringify_failures te t =
     (if t \<le> 500 then [ConsoleError te, Sleep 500]
      else ConsoleError te # Sleep 500 # stringify_failures te (t - 500))"
  by pat_completeness auto

termination
  by (relation "measure snd") auto

declare stringify_failures.simps [simp del]

text \<open>The \<^verbatim>\<open>await\<close> the loop is suspended at: the poll of line 101, the error report of
  line 120, or the response of line 137 (with the \<^verbatim>\<open>context\<close> and \<^verbatim>\<open>response\<close> it
  keeps for a retry).\<close>

datatype 'v pc =
  AwaitPoll
  | AwaitErrorPost
  | AwaitResponsePost lambda_context 'v

text \<open>
  \<open>loop P inp fn pc n t replies\<close> runs the loop from the suspension point \<open>pc\<close>, with
  \<open>n\<close> handler calls made so far and \<open>t\<close> milliseconds left on the timer set at line 90,
  against the replies of the control endpoint, one for each \<^verbatim>\<open>fetch\<close> in order. The
  timer's callback (line 91) runs as soon as its time has passed while the program is
  suspended, so an \<^verbatim>\<open>await\<close> that lasts \<open>d \<ge> t\<close> ends in \<^verbatim>\<open>process.exit(0)\<close>.
  After the handler call the requests are built from the context as the handler left it.
  A thrown value that cannot be read makes the \<^verbatim>\<open>catch\<close> block of lines 119-133
  throw before it sends anything, and nothing catches that.
\<close>

fun loop ::
  "'v platform \<Rightarrow> input \<Rightarrow> 'v export \<Rightarrow> 'v pc \<Rightarrow> nat \<Rightarrow> ms \<Rightarrow> reply list
     \<Rightarrow> 'v event list \<times> status" where
  "loop P inp fn pc n t [] = ([], Running)"
| "loop P inp fn AwaitPoll n t (r # rs) =
     (case r of
        Pending \<Rightarrow> ([], Exited 0)
      | Reject d ex \<Rightarrow>
          if t \<le> d then ([], Exited 0)
          else prepend (Settled r # next_poll inp) (loop P inp fn AwaitPoll n watchdog_ms rs)
      | Resolve d result \<Rightarrow>
          if t \<le> d then ([], Exited 0)
          else
            (case json_parse P (res_body result) of
               None \<Rightarrow>
                 prepend (Settled r # next_poll inp) (loop P inp fn AwaitPoll n watchdog_ms rs)
             | Some request \<Rightarrow>
                 (let context = context_of result
                  in prepend
                       [Settled r, SetGlobalRequestId (awsRequestId context),
                        Invoke n request context]
                       (case call P fn n request context of
                          Spins \<Rightarrow> ([], Blocked)
                        | Unsettled \<Rightarrow> ([], Exited 0)
                        | Throws d' x context' \<Rightarrow>
                            if t - d \<le> d' then ([], Exited 0)
                            else
                              (case x of
                                 Unreadable te \<Rightarrow> ([], Uncaught te)
                               | Readable ex \<Rightarrow>
                                   prepend [fetch inp (error_req P context' ex)]
                                     (loop P inp fn AwaitErrorPost (Suc n) (t - d - d') rs))
                        | Returns d' response context' \<Rightarrow>
                            if t - d \<le> d' then ([], Exited 0)
                            else
                              (case response_req P context' response of
                                 Inl te \<Rightarrow> (stringify_failures te (t - d - d'), Exited 0)
                               | Inr rq \<Rightarrow>
                                   prepend [fetch inp rq]
                                     (loop P inp fn (AwaitResponsePost context' response)
                                        (Suc n) (t - d - d') rs))))))"
| "loop P inp fn AwaitErrorPost n t (r # rs) =
     (case r of
        Pending \<Rightarrow> ([], Exited 0)
      | Reject d ex \<Rightarrow> if t \<le> d then ([], Exited 0) else ([Settled r], Uncaught ex)
      | Resolve d result \<Rightarrow>
          if t \<le> d then ([], Exited 0)
          else prepend (Settled r # next_poll inp) (loop P inp fn AwaitPoll n watchdog_ms rs))"
| "loop P inp fn (AwaitResponsePost context response) n t (r # rs) =
     (case r of
        Pending \<Rightarrow> ([], Exited 0)
      | Resolve d result \<Rightarrow>
          if t \<le> d then ([], Exited 0)
          else prepend (Settled r # next_poll inp) (loop P inp fn AwaitPoll n watchdog_ms rs)
      | Reject d ex \<Rightarrow>
          if t \<le> d then ([], Exited 0)
          else if t - d \<le> 500 then ([Settled r, ConsoleError ex, Sleep 500], Exited 0)
          else
            (case response_req P context response of
               Inl te \<Rightarrow>
                 ([Settled r, ConsoleError ex, Sleep 500]
                    @ stringify_failures te (t - d - 500), Exited 0)
             | Inr rq \<Rightarrow>
                 prepend [Settled r, ConsoleError ex, Sleep 500, fetch inp rq]
                   (loop P inp fn (AwaitResponsePost context response) n (t - d - 500) rs)))"

section \<open>The whole module\<close>

text \<open>Lines 58-85, then the first iteration of the loop. No timer is set while the init
  error is reported; a thrown value that cannot be read makes the \<^verbatim>\<open>catch\<close> block of
  lines 71-85 throw before it sends the report.\<close>

definition main :: "'v platform \<Rightarrow> input \<Rightarrow> reply list \<Rightarrow> 'v event list \<times> status" where
  "main P inp replies =
     (case resolve P inp of
        Inl (Unreadable te) \<Rightarrow> ([], Uncaught te)
      | Inl (Readable ex) \<Rightarrow>
          prepend [fetch inp (init_error_req P ex)]
            (case replies of
               [] \<Rightarrow> ([], Running)
             | Resolve d result # rs \<Rightarrow> ([Settled (Resolve d result)], Exited 1)
             | Reject d ex' # rs \<Rightarrow> ([Settled (Reject d ex')], Uncaught ex')
             | Pending # rs \<Rightarrow> ([], Hung))
      | Inr fn \<Rightarrow>
          prepend [SetTimeout watchdog_ms, fetch inp next_req]
            (loop P inp fn AwaitPoll 0 watchdog_ms replies))"

section \<open>Properties of traces\<close>

text \<open>
  The monitors below are written from the claims, with the paths, the header name and the
  duration spelled out, and are run over a trace.

  The first is the control endpoint's view of "one invocation at a time". A poll is
  outstanding from its request to its settlement. When it resolves with a body that
  parses, an invocation has been received: the handler is called once, one delivery
  request follows, and the invocation is over when a delivery resolves; a rejected
  delivery leaves it open. Until then no poll and no second handler call may occur, and
  while a request is outstanding nothing else may be sent. A poll that fails, or resolves
  with a body that does not parse, leaves no invocation.
\<close>

datatype flight = Idle | Polling | Received | Handling | Delivering

fun flight_step :: "(string \<Rightarrow> bool) \<Rightarrow> flight \<Rightarrow> 'v event \<Rightarrow> flight option" where
  "flight_step ok s (Fetch u r) =
     (if path r = ''/runtime/invocation/next'' then (if s = Idle then Some Polling else None)
      else if path r = ''/runtime/init/error'' then (if s = Idle then Some Idle else None)
      else if s = Handling then Some Delivering else None)"
| "flight_step ok s (Invoke n request c) = (if s = Received then Some Handling else None)"
| "flight_step ok s (Settled r) =
     (case s of
        Idle \<Rightarrow> Some Idle
      | Polling \<Rightarrow>
          (case r of
             Resolve d result \<Rightarrow> if ok (res_body result) then Some Received else Some Idle
           | _ \<Rightarrow> Some Idle)
      | Delivering \<Rightarrow> (case r of Resolve d result \<Rightarrow> Some Idle | _ \<Rightarrow> Some Handling)
      | _ \<Rightarrow> None)"
| "flight_step ok s e = Some s"

fun one_at_a_time :: "(string \<Rightarrow> bool) \<Rightarrow> flight \<Rightarrow> 'v event list \<Rightarrow> bool" where
  "one_at_a_time ok s [] = True"
| "one_at_a_time ok s (e # es) =
     (case flight_step ok s e of None \<Rightarrow> False | Some s' \<Rightarrow> one_at_a_time ok s' es)"

definition parses :: "'v platform \<Rightarrow> string \<Rightarrow> bool" where
  "parses P b = (case json_parse P b of None \<Rightarrow> False | Some request \<Rightarrow> True)"

text \<open>
  The second monitor follows the request id. Its state is the value of the
  \<^verbatim>\<open>lambda-runtime-aws-request-id\<close> header of the latest poll that resolved, and
  whether the request in flight is a poll. Every handler call must have that value in its
  context, and every request other than a poll and the init error must go to
  \<^verbatim>\<open>/runtime/invocation/<id>/error\<close> or \<^verbatim>\<open>/runtime/invocation/<id>/response\<close>,
  where the id is that value, or the word \<^verbatim>\<open>undefined\<close> when the header was absent.
\<close>

fun id_in_path :: "string option \<Rightarrow> string" where
  "id_in_path None = ''undefined''"
| "id_in_path (Some rid) = rid"

fun threaded :: "string option \<Rightarrow> bool \<Rightarrow> 'v event list \<Rightarrow> bool" where
  "threaded rid polling [] = True"
| "threaded rid polling (Fetch u r # es) =
     (if path r = ''/runtime/invocation/next'' then threaded rid True es
      else if path r = ''/runtime/init/error'' then threaded rid False es
      else (path r = ''/runtime/invocation/'' @ id_in_path rid @ ''/error''
            \<or> path r = ''/runtime/invocation/'' @ id_in_path rid @ ''/response'')
           \<and> threaded rid False es)"
| "threaded rid polling (Settled (Resolve d result) # es) =
     threaded
       (if polling then map_of (res_headers result) ''lambda-runtime-aws-request-id'' else rid)
       False es"
| "threaded rid polling (Settled r # es) = threaded rid False es"
| "threaded rid polling (Invoke n request c # es) =
     (awsRequestId c = rid \<and> threaded rid polling es)"
| "threaded rid polling (e # es) = threaded rid polling es"

text \<open>A handler that never assigns \<^verbatim>\<open>context.awsRequestId\<close>.\<close>

definition keeps_request_id :: "'v platform \<Rightarrow> 'v export \<Rightarrow> bool" where
  "keeps_request_id P fn =
     (\<forall>n request c.
        case call P fn n request c of
          Returns d v c' \<Rightarrow> awsRequestId c' = awsRequestId c
        | Throws d x c' \<Rightarrow> awsRequestId c' = awsRequestId c
        | Unsettled \<Rightarrow> True
        | Spins \<Rightarrow> True)"

text \<open>
  The third monitor follows the timer. A \<^verbatim>\<open>setTimeout\<close> must last 900000 ms, must
  come first or right after a \<^verbatim>\<open>clearTimeout\<close>, and must be followed at once by a
  poll; a \<^verbatim>\<open>clearTimeout\<close> must find a timer running; and a poll must come right after
  a \<^verbatim>\<open>setTimeout\<close>.
\<close>

datatype timer_phase = Unset | Ticking | Cleared | Fresh

fun timer_step :: "timer_phase \<Rightarrow> 'v event \<Rightarrow> timer_phase option" where
  "timer_step s (SetTimeout d) =
     (if d = 900000 \<and> (s = Unset \<or> s = Cleared) then Some Fresh else None)"
| "timer_step s ClearTimeout = (if s = Ticking then Some Cleared else None)"
| "timer_step s (Fetch u r) =
     (if path r = ''/runtime/invocation/next''
      then (if s = Fresh then Some Ticking else None)
      else if s = Fresh \<or> s = Cleared then None else Some s)"
| "timer_step s e = (if s = Fresh \<or> s = Cleared then None else Some s)"

fun timer_discipline :: "timer_phase \<Rightarrow> 'v event list \<Rightarrow> bool" where
  "timer_discipline s [] = True"
| "timer_discipline s (e # es) =
     (case timer_step s e of None \<Rightarrow> False | Some s' \<Rightarrow> timer_discipline s' es)"

text \<open>A poll that does not give the loop an invocation within the watchdog's time: one
  that fails, or one that resolves with a body that does not parse.\<close>

fun fruitless :: "'v platform \<Rightarrow> reply \<Rightarrow> bool" where
  "fruitless P (Reject d ex) = (d < 900000)"
| "fruitless P (Resolve d result) =
     (d < 900000 \<and> (case json_parse P (res_body result) of None \<Rightarrow> True | Some v \<Rightarrow> False))"
| "fruitless P Pending = False"


fun thread_state :: "'v pc \<Rightarrow> string option \<Rightarrow> bool \<Rightarrow> bool" where
  "thread_state AwaitPoll rid polling = polling"
| "thread_state AwaitErrorPost rid polling = (\<not> polling)"
| "thread_state (AwaitResponsePost c v) rid polling = (\<not> polling \<and> rid = awsRequestId c)"

section \<open>A sample deployment\<close>

text \<open>
  Stand-ins for the library functions, for running the program on concrete inputs: a few
  JavaScript values with the JSON texts of the literals, POSIX paths without
  normalisation, a file system given by the list of its files and a module loader given by
  what each module exports or throws.
\<close>

datatype json = JNull | JBool bool | JString string | JBigInt nat | JUndefined

definition sample_parse :: "string \<Rightarrow> json option" where
  "sample_parse s =
     (if s = ''null'' then Some JNull
      else if s = ''true'' then Some (JBool True)
      else if s = ''false'' then Some (JBool False)
      else None)"

fun escaped :: "char \<Rightarrow> string" where
  "escaped c =
     (if c = CHR 0x22 then [CHR 0x5C, CHR 0x22]
      else if c = CHR 0x5C then [CHR 0x5C, CHR 0x5C]
      else if c = CHR 0x0A then [CHR 0x5C, CHR ''n'']
      else [c])"

definition quoted :: "string \<Rightarrow> string" where
  "quoted s = [CHR 0x22] @ concat (map escaped s) @ [CHR 0x22]"

fun joined :: "string list \<Rightarrow> string" where
  "joined [] = []"
| "joined [k] = k"
| "joined (k # k' # ks) = k @ '','' @ joined (k' # ks)"

definition bigint_error :: exn where
  "bigint_error = \<lparr>message = Some ''Do not know how to serialize a BigInt'', stack = None\<rparr>"

fun sample_stringify :: "json \<Rightarrow> exn + string option" where
  "sample_stringify JNull = Inr (Some ''null'')"
| "sample_stringify (JBool b) = Inr (Some (if b then ''true'' else ''false''))"
| "sample_stringify (JString s) = Inr (Some (quoted s))"
| "sample_stringify (JBigInt n) = Inl bigint_error"
| "sample_stringify JUndefined = Inr None"

text \<open>An undefined property is left out of the text.\<close>

definition sample_stringify_report :: "error_payload \<Rightarrow> string" where
  "sample_stringify_report p =
     ''{'' @ quoted ''errorType'' @ '':'' @ quoted (errorType p)
     @ (case errorMessage p of
          None \<Rightarrow> []
        | Some m \<Rightarrow> '','' @ quoted ''errorMessage'' @ '':'' @ quoted m)
     @ (case trace p of
          None \<Rightarrow> []
        | Some ls \<Rightarrow> '','' @ quoted ''trace'' @ '':['' @ joined (map quoted ls) @ '']'')
     @ ''}''"

definition posix_parse :: "string \<Rightarrow> parsed_path" where
  "posix_parse s =
     (let rbase = takeWhile (\<lambda>c. c \<noteq> CHR ''/'') (rev s);
          d = rev (drop 1 (dropWhile (\<lambda>c. c \<noteq> CHR ''/'') (rev s)));
          rname = drop 1 (dropWhile (\<lambda>c. c \<noteq> CHR ''.'') rbase)
      in if CHR ''.'' \<in> set rbase \<and> rname \<noteq> []
         then \<lparr>dir = d, name = rev rname,
               ext = CHR ''.'' # rev (takeWhile (\<lambda>c. c \<noteq> CHR ''.'') rbase)\<rparr>
         else \<lparr>dir = d, name = rev rbase, ext = []\<rparr>)"

fun posix_join :: "string list \<Rightarrow> string" where
  "posix_join [] = ''.''"
| "posix_join [p] = p"
| "posix_join (p # q # ps) = p @ ''/'' @ posix_join (q # ps)"

definition sample_platform ::
  "string list \<Rightarrow> (string \<times> (thrown + (string \<times> json export) list)) list \<Rightarrow> json platform"
  where
  "sample_platform files modules =
     \<lparr>path_parse = posix_parse, path_join = posix_join,
      existsSync = (\<lambda>f. f \<in> set files),
      pathToFileURL = (\<lambda>f. Inr (''file://'' @ f)),
      import_module =
        (\<lambda>href. case map_of modules href of
                  None \<Rightarrow>
                    Inl (Readable \<lparr>message = Some (''Cannot find module '' @ href),
                                   stack = None\<rparr>)
                | Some m \<Rightarrow> m),
      json_parse = sample_parse, json_stringify = sample_stringify,
      stringify_report = sample_stringify_report,
      stack_of = (\<lambda>msg. ''Error: '' @ msg)\<rparr>"

definition sample_input :: input where
  "sample_input =
     \<lparr>handler = ''api/hello.handler'', out = ''/build'', url = ''http://localhost:12557''\<rparr>"

definition sample_poll :: "string \<Rightarrow> string \<Rightarrow> response" where
  "sample_poll rid b =
     \<lparr>statusCode = 200,
      res_headers = [(request_id_header, rid), (arn_header, ''arn:aws:lambda:local:fn'')],
      res_body = b\<rparr>"

definition accepted :: response where
  "accepted = \<lparr>statusCode = 202, res_headers = [], res_body = []\<rparr>"

definition econnreset :: exn where
  "econnreset = \<lparr>message = Some ''socket hang up'', stack = None\<rparr>"

text \<open>The sample module \<^verbatim>\<open>/build/api/hello.js\<close> with the single export
  \<^verbatim>\<open>handler\<close>, given by what each call does.\<close>

definition sample_world ::
  "(nat \<Rightarrow> json \<Rightarrow> lambda_context \<Rightarrow> json outcome) \<Rightarrow> json platform" where
  "sample_world f =
     sample_platform [''/build/api/hello.js'']
       [(''file:///build/api/hello.js'', Inr [(''handler'', Function f)])]"

text \<open>A module that throws \<^verbatim>\<open>null\<close> while it loads.\<close>

definition null_error :: exn where
  "null_error =
     \<lparr>message = Some ''Cannot read properties of null (reading 'message')'', stack = None\<rparr>"

definition broken_world :: "json platform" where
  "broken_world =
     sample_platform [''/build/api/hello.js'']
       [(''file:///build/api/hello.js'', Inl (Unreadable null_error))]"

text \<open>Handlers for the sample module: one whose promise never settles, one that returns
  \<^verbatim>\<open>true\<close> after 5 ms, one that throws an error after 5 ms, one that assigns
  \<^verbatim>\<open>context.awsRequestId\<close> before it returns, and one that returns a
  \<^verbatim>\<open>BigInt\<close> shortly before the watchdog's time is over.\<close>

definition hangs :: "nat \<Rightarrow> json \<Rightarrow> lambda_context \<Rightarrow> json outcome" where
  "hangs n event context = Unsettled"

definition succeeds :: "nat \<Rightarrow> json \<Rightarrow> lambda_context \<Rightarrow> json outcome" where
  "succeeds n event context = Returns 5 (JBool True) context"

definition boom :: exn where
  "boom = \<lparr>message = Some ''boom'',
            stack = Some (''Error: boom'' @ [CHR 0x0A] @ ''    at handler'')\<rparr>"

definition fails :: "nat \<Rightarrow> json \<Rightarrow> lambda_context \<Rightarrow> json outcome" where
  "fails n event context = Throws 5 (Readable boom) context"

definition renames :: "nat \<Rightarrow> json \<Rightarrow> lambda_context \<Rightarrow> json outcome" where
  "renames n event context = Returns 5 (JBool True) (context\<lparr>awsRequestId := Some ''zzz-9''\<rparr>)"

definition returns_bigint :: "nat \<Rightarrow> json \<Rightarrow> lambda_context \<Rightarrow> json outcome" where
  "returns_bigint n event context = Returns 899000 (JBigInt 1) context"

definition sample_context :: lambda_context where
  "sample_context = \<lparr>awsRequestId = Some ''abc-1'',
      invokedFunctionArn = Some ''arn:aws:lambda:local:fn''\<rparr>"

text \<open>The response request of the sample handler that returns \<^verbatim>\<open>true\<close> for the
  invocation \<^verbatim>\<open>abc-1\<close>.\<close>

definition true_response :: req where
  "true_response =
     \<lparr>path = ''/runtime/invocation/abc-1/response'', method = ''POST'',
      headers = [(''Content-Type'', ''application/json'')], body = Some ''true''\<rparr>"

text \<open>The reading of "invocation" under which every poll that resolves hands one out,
  whatever its body.\<close>

definition any_body :: "string \<Rightarrow> bool" where
  "any_body b = True"

section \<open>Evaluating the samples\<close>

lemmas sample_defs =
  handler_file_def candidates_def extensions_def sample_world_def broken_world_def
  sample_platform_def sample_input_def posix_parse_def export_name_def substring1_def
  lookup_export_def sample_poll_def sample_parse_def accepted_def econnreset_def Let_def

lemmas handler_defs =
  hangs_def succeeds_def fails_def renames_def returns_bigint_def boom_def sample_context_def

lemmas program_defs =
  main_def resolve_def prepend_def watchdog_ms_def call_def context_of_def fetch_def
  next_req_def next_poll_def response_req_def error_req_def init_error_req_def
  json_headers_def request_id_header_def arn_header_def error_report_def
  not_found_message_def undefined_path_error_def js_error_def

text \<open>The body of the error report for the sample error, as the sample
  \<^verbatim>\<open>JSON.stringify\<close> prints it.\<close>

lemma sample_error_body:
  "body (error_req (sample_world fails) sample_context boom) =
     Some ''{\"errorType\":\"Error\",\"errorMessage\":\"boom\",\"trace\":[\"Error: boom\",\"    at handler\"]}''"
  by (simp add: sample_defs program_defs handler_defs sample_stringify_report_def quoted_def)

section \<open>Invariants of every trace\<close>

lemma poll_paths [simp]:
  "path next_req = ''/runtime/invocation/next''"
  "path (init_error_req P ex) = ''/runtime/init/error''"
  "path (error_req P c ex) = ''/runtime/invocation/'' @ tmpl (awsRequestId c) @ ''/error''"
  "response_req P c v = Inr rq \<Longrightarrow>
     path rq = ''/runtime/invocation/'' @ tmpl (awsRequestId c) @ ''/response''"
  by (auto simp: next_req_def init_error_req_def error_req_def response_req_def
      split: sum.splits)

lemma tmpl_id_in_path [simp]: "tmpl rid = id_in_path rid"
  by (cases rid) simp_all

lemma parses_simps [simp]:
  "json_parse P b = None \<Longrightarrow> \<not> parses P b"
  "json_parse P b = Some v \<Longrightarrow> parses P b"
  by (simp_all add: parses_def)

lemma failures_one_at_a_time [simp]:
  "one_at_a_time ok s (stringify_failures te t)"
proof (induction te t rule: stringify_failures.induct)
  case (1 te t)
  then show ?case by (subst stringify_failures.simps) simp
qed

lemma failures_threaded [simp]:
  "threaded rid polling (stringify_failures te t)"
proof (induction te t rule: stringify_failures.induct)
  case (1 te t)
  then show ?case by (subst stringify_failures.simps) simp
qed

lemma failures_timer [simp]:
  "timer_discipline Ticking (stringify_failures te t)"
proof (induction te t rule: stringify_failures.induct)
  case (1 te t)
  then show ?case by (subst stringify_failures.simps) simp
qed



lemma loop_timer:
  "timer_discipline Ticking (fst (loop P inp fn pc n t rs))"
proof (induction P inp fn pc n t rs rule: loop.induct)
  case (1 P inp fn pc n t)
  then show ?case by simp
next
  case (2 P inp fn n t r rs)
  then show ?case
    by (auto simp: prepend_def next_poll_def fetch_def Let_def watchdog_ms_def
        split: reply.splits option.splits outcome.splits thrown.splits sum.splits)
next
  case (3 P inp fn n t r rs)
  then show ?case
    by (auto simp: prepend_def next_poll_def fetch_def watchdog_ms_def split: reply.splits)
next
  case (4 P inp fn c v n t r rs)
  then show ?case
    by (auto simp: prepend_def next_poll_def fetch_def watchdog_ms_def
        split: reply.splits sum.splits)
qed

lemma main_timer: "timer_discipline Unset (fst (main P inp replies))"
proof (cases "resolve P inp")
  case (Inl x)
  then show ?thesis
    by (cases x) (simp_all add: main_def prepend_def fetch_def split: list.splits reply.splits)
next
  case (Inr fn)
  then show ?thesis
    using loop_timer [of P inp fn AwaitPoll 0 watchdog_ms replies]
    by (simp add: main_def prepend_def fetch_def watchdog_ms_def)
qed

lemma keepsD:
  assumes "keeps_request_id P fn"
  shows "call P fn n request c = Returns d v c' \<Longrightarrow> awsRequestId c' = awsRequestId c"
    and "call P fn n request c = Throws d x c' \<Longrightarrow> awsRequestId c' = awsRequestId c"
proof -
  from assms have k: "case call P fn n request c of
          Returns d v c' \<Rightarrow> awsRequestId c' = awsRequestId c
        | Throws d x c' \<Rightarrow> awsRequestId c' = awsRequestId c
        | Unsettled \<Rightarrow> True
        | Spins \<Rightarrow> True"
    unfolding keeps_request_id_def by blast
  show "call P fn n request c = Returns d v c' \<Longrightarrow> awsRequestId c' = awsRequestId c"
    using k by simp
  show "call P fn n request c = Throws d x c' \<Longrightarrow> awsRequestId c' = awsRequestId c"
    using k by simp
qed

lemma loop_threaded:
  "keeps_request_id P fn \<Longrightarrow> thread_state pc rid polling
   \<Longrightarrow> threaded rid polling (fst (loop P inp fn pc n t rs))"
proof (induction P inp fn pc n t rs arbitrary: rid polling rule: loop.induct)
  case (1 P inp fn pc n t)
  then show ?case by simp
next
  case (2 P inp fn n t r rs)
  show ?case
  proof (cases r)
    case Pending
    then show ?thesis by simp
  next
    case (Reject d ex)
    with 2 show ?thesis
      by (auto simp: prepend_def next_poll_def fetch_def)
  next
    case (Resolve d result)
    show ?thesis
    proof (cases "json_parse P (res_body result)")
      case None
      with 2 Resolve show ?thesis
        by (auto simp: prepend_def next_poll_def fetch_def)
    next
      case (Some request)
      have hdr: "awsRequestId (context_of result)
          = map_of (res_headers result) ''lambda-runtime-aws-request-id''"
        by (simp add: context_of_def request_id_header_def)
      show ?thesis
      proof (cases "call P fn n request (context_of result)")
        case (Returns d' v c')
        have "awsRequestId c' = awsRequestId (context_of result)"
          using keepsD(1) [OF "2.prems"(1) Returns] .
        with hdr have eq: "awsRequestId (context_of result) = awsRequestId c'"
          "map_of (res_headers result) ''lambda-runtime-aws-request-id'' = awsRequestId c'"
          by simp_all
        from 2 Resolve Some Returns eq show ?thesis
          by (auto simp: prepend_def fetch_def Let_def split: sum.splits)
      next
        case (Throws d' x c')
        have "awsRequestId c' = awsRequestId (context_of result)"
          using keepsD(2) [OF "2.prems"(1) Throws] .
        with hdr have eq: "awsRequestId (context_of result) = awsRequestId c'"
          "map_of (res_headers result) ''lambda-runtime-aws-request-id'' = awsRequestId c'"
          by simp_all
        from 2 Resolve Some Throws eq show ?thesis
          by (auto simp: prepend_def fetch_def Let_def split: thrown.splits)
      next
        case Unsettled
        with 2 Resolve Some hdr show ?thesis
          by (auto simp: prepend_def Let_def)
      next
        case Spins
        with 2 Resolve Some hdr show ?thesis
          by (auto simp: prepend_def Let_def)
      qed
    qed
  qed
next
  case (3 P inp fn n t r rs)
  then show ?case
    by (auto simp: prepend_def next_poll_def fetch_def split: reply.splits)
next
  case (4 P inp fn c v n t r rs)
  then show ?case
    by (auto simp: prepend_def next_poll_def fetch_def split: reply.splits sum.splits)
qed

section \<open>One invocation at a time, and its request id\<close>


lemma resolve_sample [simp]:
  "resolve (sample_world f) sample_input = Inr (Function f)"
  by (simp add: sample_defs resolve_def)

text \<open>
  C2, as the code has it. When the handler never assigns \<^verbatim>\<open>context.awsRequestId\<close>,
  every trace passes the request-id monitor: the id in the path of each invocation-error
  and invocation-response POST is the value of the \<^verbatim>\<open>lambda-runtime-aws-request-id\<close>
  header of that invocation's poll. For any handler, the handler is called with a context
  holding that header value, and the POST that follows goes to the path made from
  \<^verbatim>\<open>context.awsRequestId\<close> as the handler left it (\<^verbatim>\<open>undefined\<close> when absent).
\<close>

theorem request_id_threading:
  "((\<forall>fn. resolve P inp = Inr fn \<longrightarrow> keeps_request_id P fn)
      \<longrightarrow> threaded None False (fst (main P inp replies)))
   \<and> (d < t \<and> json_parse P (res_body poll) = Some request \<and> dh < t - d \<longrightarrow>
        (call P fn n request (context_of poll) = Returns dh v c' \<and> json_stringify P v = Inr b
           \<longrightarrow> (\<exists>tr st. loop P inp fn AwaitPoll n t (Resolve d poll # rs) =
                 (Settled (Resolve d poll)
                  # SetGlobalRequestId (map_of (res_headers poll) ''lambda-runtime-aws-request-id'')
                  # Invoke n request
                      \<lparr>awsRequestId = map_of (res_headers poll) ''lambda-runtime-aws-request-id'',
                       invokedFunctionArn =
                         map_of (res_headers poll) ''lambda-runtime-invoked-function-arn''\<rparr>
                  # Fetch (url inp @ ''/runtime/invocation/'' @ id_in_path (awsRequestId c')
                           @ ''/response'')
                      \<lparr>path = ''/runtime/invocation/'' @ id_in_path (awsRequestId c')
                              @ ''/response'',
                       method = ''POST'',
                       headers = [(''Content-Type'', ''application/json'')], body = b\<rparr>
                  # tr, st)))
        \<and> (call P fn n request (context_of poll) = Throws dh (Readable ex) c'
           \<longrightarrow> (\<exists>tr st. loop P inp fn AwaitPoll n t (Resolve d poll # rs) =
                 (Settled (Resolve d poll)
                  # SetGlobalRequestId (map_of (res_headers poll) ''lambda-runtime-aws-request-id'')
                  # Invoke n request
                      \<lparr>awsRequestId = map_of (res_headers poll) ''lambda-runtime-aws-request-id'',
                       invokedFunctionArn =
                         map_of (res_headers poll) ''lambda-runtime-invoked-function-arn''\<rparr>
                  # Fetch (url inp @ ''/runtime/invocation/'' @ id_in_path (awsRequestId c')
                           @ ''/error'')
                      \<lparr>path = ''/runtime/invocation/'' @ id_in_path (awsRequestId c')
                              @ ''/error'',
                       method = ''POST'',
                       headers = [(''Content-Type'', ''application/json'')],
                       body = Some (stringify_report P (error_report ex))\<rparr>
                  # tr, st))))"
proof (intro conjI impI)
  assume keeps: "\<forall>fn. resolve P inp = Inr fn \<longrightarrow> keeps_request_id P fn"
  show "threaded None False (fst (main P inp replies))"
  proof (cases "resolve P inp")
    case (Inl x)
    then show ?thesis
      by (cases x)
        (simp_all add: main_def prepend_def fetch_def split: list.splits reply.splits)
  next
    case (Inr fn)
    with keeps have "keeps_request_id P fn" by simp
    then have "threaded None True (fst (loop P inp fn AwaitPoll 0 watchdog_ms replies))"
      by (rule loop_threaded) simp
    with Inr show ?thesis
      by (simp add: main_def prepend_def fetch_def)
  qed
next
  assume a: "d < t \<and> json_parse P (res_body poll) = Some request \<and> dh < t - d"
    and b: "call P fn n request (context_of poll) = Returns dh v c' \<and> json_stringify P v = Inr b"
  then show "\<exists>tr st. loop P inp fn AwaitPoll n t (Resolve d poll # rs) =
                 (Settled (Resolve d poll)
                  # SetGlobalRequestId (map_of (res_headers poll) ''lambda-runtime-aws-request-id'')
                  # Invoke n request
                      \<lparr>awsRequestId = map_of (res_headers poll) ''lambda-runtime-aws-request-id'',
                       invokedFunctionArn =
                         map_of (res_headers poll) ''lambda-runtime-invoked-function-arn''\<rparr>
                  # Fetch (url inp @ ''/runtime/invocation/'' @ id_in_path (awsRequestId c')
                           @ ''/response'')
                      \<lparr>path = ''/runtime/invocation/'' @ id_in_path (awsRequestId c')
                              @ ''/response'',
                       method = ''POST'',
                       headers = [(''Content-Type'', ''application/json'')], body = b\<rparr>
                  # tr, st)"
    by (simp add: prepend_def Let_def context_of_def request_id_header_def arn_header_def
        response_req_def fetch_def json_headers_def)
next
  assume a: "d < t \<and> json_parse P (res_body poll) = Some request \<and> dh < t - d"
    and b: "call P fn n request (context_of poll) = Throws dh (Readable ex) c'"
  then show "\<exists>tr st. loop P inp fn AwaitPoll n t (Resolve d poll # rs) =
                 (Settled (Resolve d poll)
                  # SetGlobalRequestId (map_of (res_headers poll) ''lambda-runtime-aws-request-id'')
                  # Invoke n request
                      \<lparr>awsRequestId = map_of (res_headers poll) ''lambda-runtime-aws-request-id'',
                       invokedFunctionArn =
                         map_of (res_headers poll) ''lambda-runtime-invoked-function-arn''\<rparr>
                  # Fetch (url inp @ ''/runtime/invocation/'' @ id_in_path (awsRequestId c')
                           @ ''/error'')
                      \<lparr>path = ''/runtime/invocation/'' @ id_in_path (awsRequestId c')
                              @ ''/error'',
                       method = ''POST'',
                       headers = [(''Content-Type'', ''application/json'')],
                       body = Some (stringify_report P (error_report ex))\<rparr>
                  # tr, st)"
    by (simp add: prepend_def Let_def context_of_def request_id_header_def arn_header_def
        error_req_def fetch_def json_headers_def)
qed

lemma succeeds_keeps: "keeps_request_id (sample_world succeeds) (Function succeeds)"
  by (simp add: keeps_request_id_def call_def succeeds_def)

text \<open>The handler that returns \<^verbatim>\<open>true\<close> keeps the id; the one that assigns
  \<^verbatim>\<open>zzz-9\<close> is answered under that id.\<close>

theorem request_id_threading_witness:
  "threaded None False
     (fst (main (sample_world succeeds) sample_input
             [Resolve 10 (sample_poll ''abc-1'' ''null''), Resolve 4 accepted]))
   \<and> (\<exists>tr st. loop (sample_world renames) sample_input (Function renames) AwaitPoll 0 900000
                 [Resolve 10 (sample_poll ''abc-1'' ''null'')] =
         (Settled (Resolve 10 (sample_poll ''abc-1'' ''null''))
          # SetGlobalRequestId (Some ''abc-1'')
          # Invoke 0 JNull sample_context
          # Fetch ''http://localhost:12557/runtime/invocation/zzz-9/response''
              \<lparr>path = ''/runtime/invocation/zzz-9/response'', method = ''POST'',
               headers = [(''Content-Type'', ''application/json'')], body = Some ''true''\<rparr>
          # tr, st))"
proof
  have "\<forall>fn. resolve (sample_world succeeds) sample_input = Inr fn
          \<longrightarrow> keeps_request_id (sample_world succeeds) fn"
    using succeeds_keeps by simp
  then show "threaded None False
     (fst (main (sample_world succeeds) sample_input
             [Resolve 10 (sample_poll ''abc-1'' ''null''), Resolve 4 accepted]))"
    using request_id_threading [where P = "sample_world succeeds" and inp = sample_input
        and replies = "[Resolve 10 (sample_poll ''abc-1'' ''null''), Resolve 4 accepted]"]
    by blast
next
  have "(10::nat) < 900000
      \<and> json_parse (sample_world renames) (res_body (sample_poll ''abc-1'' ''null'')) = Some JNull
      \<and> (5::nat) < 900000 - 10"
    by (simp add: sample_defs)
  moreover have "call (sample_world renames) (Function renames) 0 JNull
        (context_of (sample_poll ''abc-1'' ''null''))
       = Returns 5 (JBool True) (sample_context\<lparr>awsRequestId := Some ''zzz-9''\<rparr>)
     \<and> json_stringify (sample_world renames) (JBool True) = Inr (Some ''true'')"
    by (simp add: call_def renames_def context_of_def sample_poll_def sample_context_def
        request_id_header_def arn_header_def sample_world_def sample_platform_def)
  ultimately show "\<exists>tr st. loop (sample_world renames) sample_input (Function renames)
                 AwaitPoll 0 900000 [Resolve 10 (sample_poll ''abc-1'' ''null'')] =
         (Settled (Resolve 10 (sample_poll ''abc-1'' ''null''))
          # SetGlobalRequestId (Some ''abc-1'')
          # Invoke 0 JNull sample_context
          # Fetch ''http://localhost:12557/runtime/invocation/zzz-9/response''
              \<lparr>path = ''/runtime/invocation/zzz-9/response'', method = ''POST'',
               headers = [(''Content-Type'', ''application/json'')], body = Some ''true''\<rparr>
          # tr, st)"
    using request_id_threading [where P = "sample_world renames" and inp = sample_input
        and d = 10 and t = 900000 and poll = "sample_poll ''abc-1'' ''null''"
        and request = JNull and dh = 5 and fn = "Function renames" and n = 0
        and v = "JBool True" and c' = "sample_context\<lparr>awsRequestId := Some ''zzz-9''\<rparr>"
        and b = "Some ''true''" and rs = "[]"]
    by (simp add: sample_poll_def sample_context_def request_id_header_def arn_header_def
        sample_input_def)
qed

text \<open>The poll hands out \<^verbatim>\<open>abc-1\<close>, the handler assigns
  \<^verbatim>\<open>context.awsRequestId = "zzz-9"\<close>, and the response is posted to
  \<^verbatim>\<open>/runtime/invocation/zzz-9/response\<close>.\<close>

theorem request_id_threading_counterexample:
  "main (sample_world renames) sample_input [Resolve 10 (sample_poll ''abc-1'' ''null'')] =
     ([SetTimeout 900000, fetch sample_input next_req,
       Settled (Resolve 10 (sample_poll ''abc-1'' ''null'')),
       SetGlobalRequestId (Some ''abc-1''), Invoke 0 JNull sample_context,
       Fetch ''http://localhost:12557/runtime/invocation/zzz-9/response''
         \<lparr>path = ''/runtime/invocation/zzz-9/response'', method = ''POST'',
          headers = [(''Content-Type'', ''application/json'')], body = Some ''true''\<rparr>],
      Running)
   \<and> \<not> threaded None False
         (fst (main (sample_world renames) sample_input
                 [Resolve 10 (sample_poll ''abc-1'' ''null'')]))"
  by (simp add: sample_defs program_defs handler_defs)

section \<open>The watchdog between polls, and startup failure\<close>

lemma fruitless_polls_keep_running:
  "(\<forall>r \<in> set replies. fruitless P r)
   \<Longrightarrow> loop P inp fn AwaitPoll n watchdog_ms replies =
       (concat (map (\<lambda>r. [Settled r, ClearTimeout, SetTimeout 900000, fetch inp next_req])
                  replies),
        Running)"
proof (induction replies)
  case Nil
  then show ?case by simp
next
  case (Cons r rs)
  then have r: "fruitless P r" and rs: "\<forall>r \<in> set rs. fruitless P r" by auto
  show ?case
  proof (cases r)
    case (Resolve d result)
    with r Cons.IH [OF rs] show ?thesis
      by (simp add: prepend_def next_poll_def watchdog_ms_def split: option.splits)
  next
    case (Reject d ex)
    with r Cons.IH [OF rs] show ?thesis
      by (simp add: prepend_def next_poll_def watchdog_ms_def)
  next
    case Pending
    with r show ?thesis by simp
  qed
qed

text \<open>
  C4, as the code has it. The watchdog lasts 900000 ms. In every trace the timer follows
  the discipline of the monitor: each \<^verbatim>\<open>setTimeout\<close> has that duration, comes first
  or right after a \<^verbatim>\<open>clearTimeout\<close> and is followed at once by a poll, and every poll
  is sent right after one; so the timer is cleared and set anew before each poll, also
  before the poll that follows a failed or discarded one. A poll that is not answered
  within 900000 ms ends the process with code 0. Polls that each fail, or are discarded
  because the body does not parse, in less than 900000 ms never end it, however many they
  are: each is followed by a fresh timer and the next poll.
\<close>

theorem idle_watchdog:
  "watchdog_ms = 900000
   \<and> timer_discipline Unset (fst (main P inp replies))
   \<and> (r = Pending \<or> (\<exists>d x. r = Resolve d x \<and> 900000 \<le> d)
        \<or> (\<exists>d ex. r = Reject d ex \<and> 900000 \<le> d)
      \<longrightarrow> loop P inp fn AwaitPoll n watchdog_ms (r # rs) = ([], Exited 0))
   \<and> ((\<forall>r \<in> set replies. fruitless P r)
      \<longrightarrow> loop P inp fn AwaitPoll n watchdog_ms replies =
            (concat (map (\<lambda>r. [Settled r, ClearTimeout, SetTimeout 900000, fetch inp next_req])
                       replies),
             Running))"
proof (intro conjI impI)
  show "watchdog_ms = 900000" by (simp add: watchdog_ms_def)
  show "timer_discipline Unset (fst (main P inp replies))" by (rule main_timer)
  show "loop P inp fn AwaitPoll n watchdog_ms (r # rs) = ([], Exited 0)"
    if "r = Pending \<or> (\<exists>d x. r = Resolve d x \<and> 900000 \<le> d)
        \<or> (\<exists>d ex. r = Reject d ex \<and> 900000 \<le> d)"
    using that by (auto simp: watchdog_ms_def)
  show "loop P inp fn AwaitPoll n watchdog_ms replies =
            (concat (map (\<lambda>r. [Settled r, ClearTimeout, SetTimeout 900000, fetch inp next_req])
                       replies),
             Running)"
    if "\<forall>r \<in> set replies. fruitless P r"
    using that by (rule fruitless_polls_keep_running)
qed

text \<open>A poll answered after 900 s; and a poll that fails after 600 s, followed by one that
  is discarded after 600 s.\<close>

theorem idle_watchdog_witness:
  "loop (sample_world succeeds) sample_input (Function succeeds) AwaitPoll 0 watchdog_ms
      [Resolve 900000 (sample_poll ''abc-1'' ''null'')] = ([], Exited 0)
   \<and> loop (sample_world succeeds) sample_input (Function succeeds) AwaitPoll 0 watchdog_ms
        [Reject 600000 econnreset, Resolve 600000 (sample_poll ''abc-1'' ''{oops'')] =
      ([Settled (Reject 600000 econnreset), ClearTimeout, SetTimeout 900000,
        fetch sample_input next_req,
        Settled (Resolve 600000 (sample_poll ''abc-1'' ''{oops'')), ClearTimeout,
        SetTimeout 900000, fetch sample_input next_req],
       Running)"
proof -
  note th = idle_watchdog [of "sample_world succeeds" sample_input
        "[Reject 600000 econnreset, Resolve 600000 (sample_poll ''abc-1'' ''{oops'')]"
        "Resolve 900000 (sample_poll ''abc-1'' ''null'')" "Function succeeds" 0 "[]"]
  have late: "\<exists>d x. Resolve 900000 (sample_poll ''abc-1'' ''null'') = Resolve d x
      \<and> 900000 \<le> d"
    by simp
  have a: "loop (sample_world succeeds) sample_input (Function succeeds) AwaitPoll 0
      watchdog_ms [Resolve 900000 (sample_poll ''abc-1'' ''null'')] = ([], Exited 0)"
    using th [THEN conjunct2, THEN conjunct2, THEN conjunct1] late by blast
  have "\<forall>r \<in> set [Reject 600000 econnreset, Resolve 600000 (sample_poll ''abc-1'' ''{oops'')].
          fruitless (sample_world succeeds) r"
    by (simp add: sample_defs)
  then have "loop (sample_world succeeds) sample_input (Function succeeds) AwaitPoll 0
      watchdog_ms [Reject 600000 econnreset, Resolve 600000 (sample_poll ''abc-1'' ''{oops'')]
    = (concat (map (\<lambda>r. [Settled r, ClearTimeout, SetTimeout 900000,
                            fetch sample_input next_req])
                 [Reject 600000 econnreset, Resolve 600000 (sample_poll ''abc-1'' ''{oops'')]),
       Running)"
    using th [THEN conjunct2, THEN conjunct2, THEN conjunct2] by blast
  then have b: "loop (sample_world succeeds) sample_input (Function succeeds) AwaitPoll 0
      watchdog_ms [Reject 600000 econnreset, Resolve 600000 (sample_poll ''abc-1'' ''{oops'')]
    = ([Settled (Reject 600000 econnreset), ClearTimeout, SetTimeout 900000,
        fetch sample_input next_req,
        Settled (Resolve 600000 (sample_poll ''abc-1'' ''{oops'')), ClearTimeout,
        SetTimeout 900000, fetch sample_input next_req],
       Running)"
    by (simp del: loop.simps)
  from a b show ?thesis by (rule conjI)
qed

text \<open>The whole module against an endpoint that refuses two polls, 600 s each: after
  1200 s without an invocation the process is still running.\<close>

theorem idle_watchdog_counterexample:
  "snd (main (sample_world succeeds) sample_input
          [Reject 600000 econnreset, Reject 600000 econnreset]) = Running
   \<and> watchdog_ms < 600000 + 600000"
  by (simp add: sample_defs program_defs)

lemma resolve_fails:
  assumes "handler_file P inp = None
       \<or> (\<exists>f. handler_file P inp = Some f \<and>
            ((\<exists>ex. pathToFileURL P f = Inl ex)
             \<or> (\<exists>href. pathToFileURL P f = Inr href \<and>
                  ((\<exists>x. import_module P href = Inl x)
                   \<or> (\<exists>m. import_module P href = Inr m
                          \<and> map_of m (export_name P inp) = None)))))"
  shows "\<exists>x. resolve P inp = Inl x
           \<and> ((\<exists>te. x = Unreadable te) \<longrightarrow>
                (\<exists>f href. handler_file P inp = Some f \<and> pathToFileURL P f = Inr href
                   \<and> import_module P href = Inl x))"
  using assms by (auto simp: resolve_def lookup_export_def Let_def)

lemma main_startup_error:
  assumes "resolve P inp = Inl x"
  shows "(case x of
            Unreadable te \<Rightarrow> main P inp replies = ([], Uncaught te)
          | Readable ex \<Rightarrow>
              (case replies of
                 [] \<Rightarrow> main P inp replies = ([fetch inp (init_error_req P ex)], Running)
               | Pending # rs \<Rightarrow> main P inp replies = ([fetch inp (init_error_req P ex)], Hung)
               | r # rs \<Rightarrow>
                   fst (main P inp replies) = [fetch inp (init_error_req P ex), Settled r]
                   \<and> exit_code (snd (main P inp replies)) = Some 1))"
  using assms
  by (auto simp: main_def prepend_def split: thrown.splits list.splits reply.splits)

lemma main_startup_fetches:
  assumes "resolve P inp = Inl x" "Fetch u r \<in> set (fst (main P inp replies))"
  shows "path r = ''/runtime/init/error''"
  using assms
  by (auto simp: main_def prepend_def fetch_def init_error_req_def
      split: thrown.splits list.splits reply.splits)

text \<open>
  C7, as the code has it. When no candidate file exists, or the file cannot be loaded, or
  the module has no export of the locator's name, the process sends no poll and no
  request other than the init-error report. When what was thrown can be read, it sends
  that report once; when the control endpoint answers it, with a response or a transport
  error, the process ends with code 1, and while it stays unanswered the process does not
  end. Only a module that throws a value such as \<^verbatim>\<open>null\<close> while it loads cannot
  be read: then the \<^verbatim>\<open>catch\<close> block throws, no report is sent, and the process ends
  with that error uncaught.
\<close>

theorem startup_failure:
  assumes "handler_file P inp = None
       \<or> (\<exists>f. handler_file P inp = Some f \<and>
            ((\<exists>ex. pathToFileURL P f = Inl ex)
             \<or> (\<exists>href. pathToFileURL P f = Inr href \<and>
                  ((\<exists>x. import_module P href = Inl x)
                   \<or> (\<exists>m. import_module P href = Inr m
                          \<and> map_of m (export_name P inp) = None)))))"
  shows "\<exists>x. resolve P inp = Inl x
       \<and> ((\<exists>te. x = Unreadable te) \<longrightarrow>
            (\<exists>f href. handler_file P inp = Some f \<and> pathToFileURL P f = Inr href
               \<and> import_module P href = Inl x))
       \<and> (case x of
            Unreadable te \<Rightarrow> main P inp replies = ([], Uncaught te)
          | Readable ex \<Rightarrow>
              (case replies of
                 [] \<Rightarrow> main P inp replies = ([fetch inp (init_error_req P ex)], Running)
               | Pending # rs \<Rightarrow> main P inp replies = ([fetch inp (init_error_req P ex)], Hung)
               | r # rs \<Rightarrow>
                   fst (main P inp replies) = [fetch inp (init_error_req P ex), Settled r]
                   \<and> exit_code (snd (main P inp replies)) = Some 1))
       \<and> (\<forall>u r. Fetch u r \<in> set (fst (main P inp replies))
            \<longrightarrow> path r = ''/runtime/init/error'')"
proof -
  from assms obtain x where x: "resolve P inp = Inl x"
    and un: "(\<exists>te. x = Unreadable te) \<longrightarrow>
            (\<exists>f href. handler_file P inp = Some f \<and> pathToFileURL P f = Inr href
               \<and> import_module P href = Inl x)"
    using resolve_fails by blast
  show ?thesis
    using x un main_startup_error [OF x, of replies] main_startup_fetches [OF x, of _ _ replies]
    by (intro exI [of _ x]) blast
qed

text \<open>An output directory with no file at all; and a module that throws
  \<^verbatim>\<open>null\<close>.\<close>

theorem startup_failure_witness:
  "(\<exists>ex. fst (main (sample_platform [] []) sample_input [Resolve 10 accepted])
           = [fetch sample_input (init_error_req (sample_platform [] []) ex),
              Settled (Resolve 10 accepted)])
   \<and> exit_code (snd (main (sample_platform [] []) sample_input [Resolve 10 accepted])) = Some 1
   \<and> main broken_world sample_input [Resolve 10 accepted] = ([], Uncaught null_error)"
proof -
  have none: "handler_file (sample_platform [] []) sample_input = None"
    by (simp add: sample_defs)
  then have r1: "resolve (sample_platform [] []) sample_input
      = Inl (Readable (undefined_path_error (sample_platform [] [])))"
    by (simp add: resolve_def)
  have first:
    "(\<exists>ex. fst (main (sample_platform [] []) sample_input [Resolve 10 accepted])
           = [fetch sample_input (init_error_req (sample_platform [] []) ex),
              Settled (Resolve 10 accepted)])
     \<and> exit_code (snd (main (sample_platform [] []) sample_input [Resolve 10 accepted])) = Some 1"
    using none r1
      startup_failure [where P = "sample_platform [] []" and inp = sample_input
        and replies = "[Resolve 10 accepted]"]
    by auto
  have found: "handler_file broken_world sample_input = Some ''/build/api/hello.js''"
    by (simp add: sample_defs)
  have url: "pathToFileURL broken_world ''/build/api/hello.js''
      = Inr ''file:///build/api/hello.js''"
    by (simp add: sample_defs)
  have imp: "import_module broken_world ''file:///build/api/hello.js''
      = Inl (Unreadable null_error)"
    by (simp add: sample_defs)
  have r2: "resolve broken_world sample_input = Inl (Unreadable null_error)"
    using found url imp by (simp add: resolve_def)
  have "main broken_world sample_input [Resolve 10 accepted] = ([], Uncaught null_error)"
    using found url imp r2
      startup_failure [where P = broken_world and inp = sample_input
        and replies = "[Resolve 10 accepted]"]
    by auto
  with first show ?thesis by simp
qed

text \<open>No file exists and the control endpoint never answers the report: the process
  neither exits nor polls.\<close>

theorem startup_failure_counterexample:
  "main (sample_platform [] []) sample_input [Pending] =
     ([fetch sample_input
         (init_error_req (sample_platform [] []) (undefined_path_error (sample_platform [] [])))],
      Hung)
   \<and> exit_code Hung = None"
  by (simp add: sample_defs main_def resolve_def prepend_def)

section \<open>The handler call, error reports, payloads and resolution\<close>

text \<open>
  C3, as the code has it. The timer set at the top of an iteration stays armed for the
  whole iteration. When the handler call never completes, the loop consumes no further
  reply and sends nothing more; the process never exits when the handler spins, and exits
  with code 0 from inside the handler call when its promise never settles. An unanswered
  error report or response ends in the same exit with code 0.
\<close>

theorem hung_handler:
  assumes "d < t" "json_parse P (res_body result) = Some request"
    and "call P fn n request (context_of result) = Unsettled
         \<or> call P fn n request (context_of result) = Spins"
  shows "loop P inp fn AwaitPoll n t (Resolve d result # rs) =
           ([Settled (Resolve d result), SetGlobalRequestId (awsRequestId (context_of result)),
             Invoke n request (context_of result)],
            if call P fn n request (context_of result) = Spins then Blocked else Exited 0)
       \<and> loop P inp fn AwaitErrorPost n t (Pending # rs) = ([], Exited 0)
       \<and> loop P inp fn (AwaitResponsePost c v) n t (Pending # rs) = ([], Exited 0)"
  using assms by (auto simp: prepend_def Let_def)

text \<open>The sample handler that never settles, polled once; the reply that follows is never
  read.\<close>

theorem hung_handler_witness:
  "loop (sample_world hangs) sample_input (Function hangs) AwaitPoll 0 watchdog_ms
     [Resolve 10 (sample_poll ''abc-1'' ''null''), Resolve 4 accepted] =
   ([Settled (Resolve 10 (sample_poll ''abc-1'' ''null'')), SetGlobalRequestId (Some ''abc-1''),
     Invoke 0 JNull sample_context], Exited 0)"
proof -
  have "json_parse (sample_world hangs) (res_body (sample_poll ''abc-1'' ''null'')) = Some JNull"
    by (simp add: sample_defs)
  moreover have "(10::nat) < watchdog_ms" by (simp add: watchdog_ms_def)
  moreover have
    "call (sample_world hangs) (Function hangs) 0 JNull
       (context_of (sample_poll ''abc-1'' ''null'')) = Unsettled"
    by (simp add: call_def hangs_def)
  ultimately show ?thesis
    using hung_handler [of 10 watchdog_ms "sample_world hangs" "sample_poll ''abc-1'' ''null''"
        JNull "Function hangs" 0 sample_input "[Resolve 4 accepted]"]
    by (simp add: context_of_def sample_poll_def sample_context_def request_id_header_def
        arn_header_def)
qed

text \<open>The whole module with that handler: the last event is the handler call, and the
  process has exited with code 0.\<close>

theorem hung_handler_counterexample:
  "main (sample_world hangs) sample_input [Resolve 10 (sample_poll ''abc-1'' ''null'')] =
     ([SetTimeout 900000, fetch sample_input next_req,
       Settled (Resolve 10 (sample_poll ''abc-1'' ''null'')),
       SetGlobalRequestId (Some ''abc-1''), Invoke 0 JNull sample_context],
      Exited 0)"
  by (simp add: sample_defs program_defs handler_defs)

text \<open>
  C6, at the failing input. The handler throws and the connection of the invocation-error
  POST is reset. Nothing catches the rejection of the \<^verbatim>\<open>await\<close> at line 120: the
  module ends with it uncaught, and the poll that the endpoint would have answered next is
  never sent.
\<close>

theorem error_delivery_failure_ends_loop:
  "main (sample_world fails) sample_input
     [Resolve 10 (sample_poll ''abc-1'' ''null''), Reject 3 econnreset,
      Resolve 10 (sample_poll ''abc-2'' ''null'')] =
   ([SetTimeout 900000, fetch sample_input next_req,
     Settled (Resolve 10 (sample_poll ''abc-1'' ''null'')), SetGlobalRequestId (Some ''abc-1''),
     Invoke 0 JNull sample_context,
     fetch sample_input (error_req (sample_world fails) sample_context boom),
     Settled (Reject 3 econnreset)],
    Uncaught econnreset)"
  by (simp add: sample_defs program_defs handler_defs)

text \<open>
  C8, as the code has it. For every poll that resolves before the watchdog fires and whose
  body \<^verbatim>\<open>JSON.parse\<close> accepts, the handler is called with the parsed body as its event,
  and with a context whose \<^verbatim>\<open>awsRequestId\<close> and \<^verbatim>\<open>invokedFunctionArn\<close> are the
  values of the headers \<^verbatim>\<open>lambda-runtime-aws-request-id\<close> and
  \<^verbatim>\<open>lambda-runtime-invoked-function-arn\<close> of the poll's response.
\<close>

theorem payload_pass_through:
  assumes "d < t" "json_parse P (res_body result) = Some request"
  shows "\<exists>tr st. loop P inp fn AwaitPoll n t (Resolve d result # rs) =
     (Settled (Resolve d result)
      # SetGlobalRequestId (map_of (res_headers result) ''lambda-runtime-aws-request-id'')
      # Invoke n request
          \<lparr>awsRequestId = map_of (res_headers result) ''lambda-runtime-aws-request-id'',
           invokedFunctionArn =
             map_of (res_headers result) ''lambda-runtime-invoked-function-arn''\<rparr>
      # tr, st)"
  using assms
  by (simp add: prepend_def Let_def context_of_def request_id_header_def arn_header_def)

text \<open>A poll whose body is the text \<^verbatim>\<open>true\<close>.\<close>

theorem payload_pass_through_witness:
  "\<exists>tr st. loop (sample_world succeeds) sample_input (Function succeeds) AwaitPoll 0 watchdog_ms
       [Resolve 10 (sample_poll ''abc-1'' ''true'')] =
     (Settled (Resolve 10 (sample_poll ''abc-1'' ''true''))
      # SetGlobalRequestId (Some ''abc-1'')
      # Invoke 0 (JBool True) sample_context # tr, st)"
proof -
  have "json_parse (sample_world succeeds) (res_body (sample_poll ''abc-1'' ''true''))
      = Some (JBool True)"
    by (simp add: sample_defs)
  moreover have "(10::nat) < watchdog_ms" by (simp add: watchdog_ms_def)
  ultimately show ?thesis
    using payload_pass_through [of 10 watchdog_ms "sample_world succeeds"
        "sample_poll ''abc-1'' ''true''" "JBool True" sample_input "Function succeeds" 0 "[]"]
    by (simp add: sample_poll_def sample_context_def request_id_header_def arn_header_def)
qed

text \<open>For that poll the handler's event is the boolean, not the body's four characters.\<close>

theorem payload_pass_through_counterexample:
  "Invoke 0 (JString ''true'') sample_context
     \<notin> set (fst (main (sample_world succeeds) sample_input
                    [Resolve 10 (sample_poll ''abc-1'' ''true'')]))
   \<and> Invoke 0 (JBool True) sample_context
     \<in> set (fst (main (sample_world succeeds) sample_input
                    [Resolve 10 (sample_poll ''abc-1'' ''true'')]))"
  by (simp add: sample_defs program_defs handler_defs)

text \<open>
  C10. When a poll resolves with a body that \<^verbatim>\<open>JSON.parse\<close> rejects, the loop makes no
  handler call and sends neither an error report nor a response: it sets the timer anew
  and sends the next poll, and goes on exactly as it does after a poll that failed at the
  transport level.
\<close>

theorem unparsable_poll_discarded:
  assumes "json_parse P (res_body result) = None" "d < t"
  shows "loop P inp fn AwaitPoll n t (Resolve d result # rs) =
           prepend [Settled (Resolve d result), ClearTimeout, SetTimeout watchdog_ms,
                    fetch inp next_req]
             (loop P inp fn AwaitPoll n watchdog_ms rs)
       \<and> loop P inp fn AwaitPoll n t (Reject d ex # rs) =
           prepend [Settled (Reject d ex), ClearTimeout, SetTimeout watchdog_ms,
                    fetch inp next_req]
             (loop P inp fn AwaitPoll n watchdog_ms rs)"
  using assms by (simp add: next_poll_def)

text \<open>A poll with a truncated body.\<close>

theorem unparsable_poll_discarded_witness:
  "loop (sample_world succeeds) sample_input (Function succeeds) AwaitPoll 0 watchdog_ms
     [Resolve 10 (sample_poll ''abc-1'' ''{oops'')] =
   ([Settled (Resolve 10 (sample_poll ''abc-1'' ''{oops'')), ClearTimeout,
     SetTimeout watchdog_ms, fetch sample_input next_req], Running)"
proof -
  have "json_parse (sample_world succeeds) (res_body (sample_poll ''abc-1'' ''{oops'')) = None"
    by (simp add: sample_defs)
  moreover have "(10::nat) < watchdog_ms" by (simp add: watchdog_ms_def)
  ultimately show ?thesis
    using unparsable_poll_discarded [of "sample_world succeeds"
        "sample_poll ''abc-1'' ''{oops''" 10 watchdog_ms sample_input "Function succeeds" 0
        "[]" econnreset]
    by (simp add: prepend_def)
qed

lemma find_first:
  "i < length xs \<Longrightarrow> p (xs ! i) \<Longrightarrow> (\<forall>j<i. \<not> p (xs ! j))
   \<Longrightarrow> List.find p xs = Some (xs ! i)"
proof (induction xs arbitrary: i)
  case Nil
  then show ?case by simp
next
  case (Cons x xs)
  show ?case
  proof (cases i)
    case 0
    with Cons.prems show ?thesis by simp
  next
    case (Suc k)
    with Cons.prems have "\<not> p x" by auto
    moreover have "List.find p xs = Some (xs ! k)"
      using Cons.prems Suc by (intro Cons.IH) auto
    ultimately show ?thesis using Suc by simp
  qed
qed

lemma resolve_found:
  assumes "handler_file P inp = Some f" "pathToFileURL P f = Inr href"
    "import_module P href = Inr m"
  shows "resolve P inp =
     (case map_of m (export_name P inp) of
        Some (Function g) \<Rightarrow> Inr (Function g)
      | Some Truthy \<Rightarrow> Inr Truthy
      | _ \<Rightarrow> Inl (Readable (js_error P (not_found_message (export_name P inp) (handler inp)
                                (map fst m)))))"
  using assms
  by (simp add: resolve_def lookup_export_def Let_def split: option.splits export.splits)

text \<open>
  C9. The candidates are the output directory, the locator's directory and the locator's
  name with \<^verbatim>\<open>.js\<close>, \<^verbatim>\<open>.jsx\<close>, \<^verbatim>\<open>.mjs\<close>, \<^verbatim>\<open>.cjs\<close> in this order, and
  the first candidate that exists is the file. When the file is loaded, the export named
  by the locator's extension without its dot is the handler; when the module has no such
  export (or a falsy one), resolution fails with a message that lists the module's
  exports.
\<close>

theorem handler_resolution:
  "candidates P inp =
     map (\<lambda>e. path_join P [out inp, dir (path_parse P (handler inp)),
                            name (path_parse P (handler inp)) @ e])
       [''.js'', ''.jsx'', ''.mjs'', ''.cjs'']
   \<and> (\<forall>i < length (candidates P inp).
         existsSync P (candidates P inp ! i)
         \<and> (\<forall>j<i. \<not> existsSync P (candidates P inp ! j))
         \<longrightarrow> handler_file P inp = Some (candidates P inp ! i))
   \<and> (handler_file P inp = Some f \<and> pathToFileURL P f = Inr href
        \<and> import_module P href = Inr m \<longrightarrow>
        (case map_of m (drop 1 (ext (path_parse P (handler inp)))) of
           Some (Function g) \<Rightarrow> resolve P inp = Inr (Function g)
         | Some Truthy \<Rightarrow> resolve P inp = Inr Truthy
         | _ \<Rightarrow>
             (\<exists>ex. resolve P inp = Inl (Readable ex)
                \<and> message ex =
                      Some (''Function \"'' @ drop 1 (ext (path_parse P (handler inp)))
                            @ ''\" not found in \"'' @ handler inp @ ''\". Found ''
                            @ join_comma (map fst m)))))"
proof (intro conjI allI impI)
  show "candidates P inp =
     map (\<lambda>e. path_join P [out inp, dir (path_parse P (handler inp)),
                            name (path_parse P (handler inp)) @ e])
       [''.js'', ''.jsx'', ''.mjs'', ''.cjs'']"
    by (simp add: candidates_def extensions_def Let_def)
next
  fix i
  assume "i < length (candidates P inp)"
    and "existsSync P (candidates P inp ! i)
         \<and> (\<forall>j<i. \<not> existsSync P (candidates P inp ! j))"
  then show "handler_file P inp = Some (candidates P inp ! i)"
    unfolding handler_file_def by (intro find_first) auto
next
  assume "handler_file P inp = Some f \<and> pathToFileURL P f = Inr href
        \<and> import_module P href = Inr m"
  then have "resolve P inp =
     (case map_of m (export_name P inp) of
        Some (Function g) \<Rightarrow> Inr (Function g)
      | Some Truthy \<Rightarrow> Inr Truthy
      | _ \<Rightarrow> Inl (Readable (js_error P (not_found_message (export_name P inp) (handler inp)
                                (map fst m)))))"
    by (intro resolve_found) auto
  then show "(case map_of m (drop 1 (ext (path_parse P (handler inp)))) of
           Some (Function g) \<Rightarrow> resolve P inp = Inr (Function g)
         | Some Truthy \<Rightarrow> resolve P inp = Inr Truthy
         | _ \<Rightarrow>
             (\<exists>ex. resolve P inp = Inl (Readable ex)
                \<and> message ex =
                      Some (''Function \"'' @ drop 1 (ext (path_parse P (handler inp)))
                            @ ''\" not found in \"'' @ handler inp @ ''\". Found ''
                            @ join_comma (map fst m))))"
    by (simp add: export_name_def substring1_def not_found_message_def js_error_def
        split: option.splits export.splits)
qed

text \<open>With \<^verbatim>\<open>hello.mjs\<close> and \<^verbatim>\<open>hello.cjs\<close> on disk, \<^verbatim>\<open>hello.mjs\<close> is
  loaded; it exports \<^verbatim>\<open>main\<close> and \<^verbatim>\<open>other\<close> but no \<^verbatim>\<open>handler\<close>.\<close>

theorem handler_resolution_witness:
  "handler_file
     (sample_platform [''/build/api/hello.mjs'', ''/build/api/hello.cjs'']
        [(''file:///build/api/hello.mjs'', Inr [(''main'', Truthy), (''other'', Truthy)])])
     sample_input = Some ''/build/api/hello.mjs''
   \<and> (\<exists>ex.
        resolve
          (sample_platform [''/build/api/hello.mjs'', ''/build/api/hello.cjs'']
             [(''file:///build/api/hello.mjs'', Inr [(''main'', Truthy), (''other'', Truthy)])])
          sample_input = Inl (Readable ex)
        \<and> message ex =
            Some ''Function \"handler\" not found in \"api/hello.handler\". Found main, other'')"
  using handler_resolution
    [of "sample_platform [''/build/api/hello.mjs'', ''/build/api/hello.cjs'']
           [(''file:///build/api/hello.mjs'', Inr [(''main'', Truthy), (''other'', Truthy)])]"
        sample_input "''/build/api/hello.mjs''" "''file:///build/api/hello.mjs''"
        "[(''main'', Truthy), (''other'', Truthy)]"]
  by (simp add: sample_defs)

section \<open>Delivering the response\<close>

lemma prepend_prepend: "prepend xs (prepend ys r) = prepend (xs @ ys) r"
  by (simp add: prepend_def)

lemma prepend_nil: "prepend [] r = r"
  by (simp add: prepend_def)

lemma retry_run:
  "response_req P c v = Inr rq \<Longrightarrow> sum_list (map (\<lambda>(d, ex). d + 500) failures) < t \<Longrightarrow>
   loop P inp fn (AwaitResponsePost c v) n t (map (\<lambda>(d, ex). Reject d ex) failures @ rest) =
   prepend
     (concat (map (\<lambda>(d, ex). [Settled (Reject d ex), ConsoleError ex, Sleep 500,
                                fetch inp rq]) failures))
     (loop P inp fn (AwaitResponsePost c v) n
        (t - sum_list (map (\<lambda>(d, ex). d + 500) failures)) rest)"
proof (induction failures arbitrary: t)
  case Nil
  then show ?case by (simp add: prepend_nil)
next
  case (Cons a failures)
  obtain d ex where a: "a = (d, ex)" by (cases a)
  from Cons.prems(2) a have t: "d + 500 < t"
    and rest: "sum_list (map (\<lambda>(d, ex). d + 500) failures) < t - d - 500"
    by auto
  from t have "\<not> t \<le> d" "\<not> t - d \<le> 500" by auto
  moreover have "t - d - 500 - sum_list (map (\<lambda>(d, ex). d + 500) failures)
      = t - (d + 500 + sum_list (map (\<lambda>(d, ex). d + 500) failures))"
    by simp
  ultimately show ?case
    using Cons.IH [OF Cons.prems(1) rest] Cons.prems(1) a
    by (simp add: prepend_def)
qed

lemma failures_events:
  "e \<in> set (stringify_failures te t) \<Longrightarrow> e = ConsoleError te \<or> e = Sleep 500"
proof (induction te t rule: stringify_failures.induct)
  case (1 te t)
  from "1.prems" show ?case
    by (subst (asm) stringify_failures.simps) (auto split: if_splits dest: "1.IH")
qed

text \<open>
  C5, as the code has it. Let the handler return a value. When \<^verbatim>\<open>JSON.stringify\<close>
  accepts it, the loop sends the response, and after each transport failure logs it, waits
  500 ms and sends the same request again, for any number of failures, as long as the
  time left on the watchdog allows: an attempt that resolves in time ends the retries and
  the next poll follows; an attempt that is not settled when the watchdog's time is over,
  or a failure whose 500 ms wait reaches that time, ends the process with code 0 and the
  response is not delivered. When \<^verbatim>\<open>JSON.stringify\<close> throws, no request is sent at
  all: the error is logged and the loop waits 500 ms, again and again, until the watchdog
  ends the process with code 0.
\<close>

theorem response_delivery:
  fixes P :: "'v platform"
  assumes "json_parse P (res_body poll) = Some request"
    and "call P fn n request (context_of poll) = Returns dh v c"
  shows
    "(response_req P c v = Inr rq
        \<and> d + dh + sum_list (map (\<lambda>(d, ex). d + 500) failures) < t \<longrightarrow>
      (let sent =
             [Settled (Resolve d poll), SetGlobalRequestId (awsRequestId (context_of poll)),
              Invoke n request (context_of poll), fetch inp rq]
             @ concat (map (\<lambda>(d, ex). [Settled (Reject d ex), ConsoleError ex, Sleep 500,
                                        fetch inp rq]) failures);
           left = t - (d + dh + sum_list (map (\<lambda>(d, ex). d + 500) failures))
       in (d' < left \<longrightarrow>
             loop P inp fn AwaitPoll n t
               (Resolve d poll # map (\<lambda>(d, ex). Reject d ex) failures
                  @ Resolve d' result # rs) =
             prepend (sent @ Settled (Resolve d' result) # next_poll inp)
               (loop P inp fn AwaitPoll (Suc n) watchdog_ms rs))
        \<and> (r = Pending \<or> (\<exists>d' x. r = Resolve d' x \<and> left \<le> d')
              \<or> (\<exists>d' ex. r = Reject d' ex \<and> left \<le> d') \<longrightarrow>
             loop P inp fn AwaitPoll n t
               (Resolve d poll # map (\<lambda>(d, ex). Reject d ex) failures @ r # rs) =
             (sent, Exited 0))
        \<and> (d' < left \<and> left \<le> d' + 500 \<longrightarrow>
             loop P inp fn AwaitPoll n t
               (Resolve d poll # map (\<lambda>(d, ex). Reject d ex) failures
                  @ Reject d' ex # rs) =
             (sent @ [Settled (Reject d' ex), ConsoleError ex, Sleep 500], Exited 0))))
     \<and> (response_req P c v = Inl te \<and> d + dh < t \<longrightarrow>
          loop P inp fn AwaitPoll n t (Resolve d poll # rs) =
            ([Settled (Resolve d poll), SetGlobalRequestId (awsRequestId (context_of poll)),
              Invoke n request (context_of poll)]
             @ stringify_failures te (t - d - dh), Exited 0)
          \<and> (\<forall>e \<in> set (stringify_failures te (t - d - dh) :: 'v event list).
                e = ConsoleError te \<or> e = Sleep 500))"
proof (intro conjI impI)
  assume a: "response_req P c v = Inr rq
        \<and> d + dh + sum_list (map (\<lambda>(d, ex). d + 500) failures) < t"
  define total where "total = sum_list (map (\<lambda>(d, ex). d + 500) failures)"
  from a have rq: "response_req P c v = Inr rq" and time: "d + dh + total < t"
    by (simp_all add: total_def)
  from time have t1: "\<not> t \<le> d" "\<not> t - d \<le> dh" and t2: "total < t - d - dh"
    and left: "t - d - dh - total = t - (d + dh + total)"
    by auto
  have start: "loop P inp fn AwaitPoll n t
        (Resolve d poll # map (\<lambda>(d, ex). Reject d ex) failures @ rest) =
      prepend
        ([Settled (Resolve d poll), SetGlobalRequestId (awsRequestId (context_of poll)),
          Invoke n request (context_of poll), fetch inp rq]
         @ concat (map (\<lambda>(d, ex). [Settled (Reject d ex), ConsoleError ex, Sleep 500,
                                    fetch inp rq]) failures))
        (loop P inp fn (AwaitResponsePost c v) (Suc n) (t - (d + dh + total)) rest)"
    for rest
    using assms rq t1 retry_run [OF rq t2 [unfolded total_def], of inp fn "Suc n" rest] left
    by (simp add: prepend_def Let_def total_def)
  show "let sent =
             [Settled (Resolve d poll), SetGlobalRequestId (awsRequestId (context_of poll)),
              Invoke n request (context_of poll), fetch inp rq]
             @ concat (map (\<lambda>(d, ex). [Settled (Reject d ex), ConsoleError ex, Sleep 500,
                                        fetch inp rq]) failures);
           left = t - (d + dh + sum_list (map (\<lambda>(d, ex). d + 500) failures))
       in (d' < left \<longrightarrow>
             loop P inp fn AwaitPoll n t
               (Resolve d poll # map (\<lambda>(d, ex). Reject d ex) failures
                  @ Resolve d' result # rs) =
             prepend (sent @ Settled (Resolve d' result) # next_poll inp)
               (loop P inp fn AwaitPoll (Suc n) watchdog_ms rs))
        \<and> (r = Pending \<or> (\<exists>d' x. r = Resolve d' x \<and> left \<le> d')
              \<or> (\<exists>d' ex. r = Reject d' ex \<and> left \<le> d') \<longrightarrow>
             loop P inp fn AwaitPoll n t
               (Resolve d poll # map (\<lambda>(d, ex). Reject d ex) failures @ r # rs) =
             (sent, Exited 0))
        \<and> (d' < left \<and> left \<le> d' + 500 \<longrightarrow>
             loop P inp fn AwaitPoll n t
               (Resolve d poll # map (\<lambda>(d, ex). Reject d ex) failures
                  @ Reject d' ex # rs) =
             (sent @ [Settled (Reject d' ex), ConsoleError ex, Sleep 500], Exited 0))"
    unfolding Let_def total_def [symmetric]
  proof (intro conjI impI)
    assume "d' < t - (d + dh + total)"
    then show "loop P inp fn AwaitPoll n t
               (Resolve d poll # map (\<lambda>(d, ex). Reject d ex) failures
                  @ Resolve d' result # rs) =
             prepend
               (([Settled (Resolve d poll), SetGlobalRequestId (awsRequestId (context_of poll)),
                  Invoke n request (context_of poll), fetch inp rq]
                 @ concat (map (\<lambda>(d, ex). [Settled (Reject d ex), ConsoleError ex, Sleep 500,
                                            fetch inp rq]) failures))
                @ Settled (Resolve d' result) # next_poll inp)
               (loop P inp fn AwaitPoll (Suc n) watchdog_ms rs)"
      by (simp add: start prepend_def del: loop.simps(2))
  next
    assume "r = Pending \<or> (\<exists>d' x. r = Resolve d' x \<and> t - (d + dh + total) \<le> d')
              \<or> (\<exists>d' ex. r = Reject d' ex \<and> t - (d + dh + total) \<le> d')"
    then show "loop P inp fn AwaitPoll n t
               (Resolve d poll # map (\<lambda>(d, ex). Reject d ex) failures @ r # rs) =
             ([Settled (Resolve d poll), SetGlobalRequestId (awsRequestId (context_of poll)),
               Invoke n request (context_of poll), fetch inp rq]
              @ concat (map (\<lambda>(d, ex). [Settled (Reject d ex), ConsoleError ex, Sleep 500,
                                         fetch inp rq]) failures), Exited 0)"
      by (auto simp: start prepend_def simp del: loop.simps(2))
  next
    assume "d' < t - (d + dh + total) \<and> t - (d + dh + total) \<le> d' + 500"
    then show "loop P inp fn AwaitPoll n t
               (Resolve d poll # map (\<lambda>(d, ex). Reject d ex) failures
                  @ Reject d' ex # rs) =
             (([Settled (Resolve d poll), SetGlobalRequestId (awsRequestId (context_of poll)),
                Invoke n request (context_of poll), fetch inp rq]
               @ concat (map (\<lambda>(d, ex). [Settled (Reject d ex), ConsoleError ex, Sleep 500,
                                          fetch inp rq]) failures))
              @ [Settled (Reject d' ex), ConsoleError ex, Sleep 500], Exited 0)"
      by (auto simp: start prepend_def simp del: loop.simps(2))
  qed
next
  assume "response_req P c v = Inl te \<and> d + dh < t"
  with assms show "loop P inp fn AwaitPoll n t (Resolve d poll # rs) =
            ([Settled (Resolve d poll), SetGlobalRequestId (awsRequestId (context_of poll)),
              Invoke n request (context_of poll)]
             @ stringify_failures te (t - d - dh), Exited 0)"
    by (auto simp: prepend_def Let_def)
next
  show "\<forall>e \<in> set (stringify_failures te (t - d - dh) :: 'v event list).
          e = ConsoleError te \<or> e = Sleep 500"
    using failures_events by blast
qed

text \<open>The response endpoint fails twice, then accepts; fails once, then never answers; fails
  after 899.9 s; and a handler that returns a \<^verbatim>\<open>BigInt\<close> 990 ms before the
  watchdog's time is over.\<close>

theorem response_delivery_witness:
  "loop (sample_world succeeds) sample_input (Function succeeds) AwaitPoll 0 900000
     [Resolve 10 (sample_poll ''abc-1'' ''null''), Reject 3 econnreset, Reject 7 econnreset,
      Resolve 4 accepted] =
   ([Settled (Resolve 10 (sample_poll ''abc-1'' ''null'')), SetGlobalRequestId (Some ''abc-1''),
     Invoke 0 JNull sample_context, fetch sample_input true_response,
     Settled (Reject 3 econnreset), ConsoleError econnreset, Sleep 500,
     fetch sample_input true_response,
     Settled (Reject 7 econnreset), ConsoleError econnreset, Sleep 500,
     fetch sample_input true_response,
     Settled (Resolve 4 accepted), ClearTimeout, SetTimeout 900000,
     fetch sample_input next_req],
    Running)
   \<and> loop (sample_world succeeds) sample_input (Function succeeds) AwaitPoll 0 900000
       [Resolve 10 (sample_poll ''abc-1'' ''null''), Reject 3 econnreset, Pending] =
     ([Settled (Resolve 10 (sample_poll ''abc-1'' ''null'')), SetGlobalRequestId (Some ''abc-1''),
       Invoke 0 JNull sample_context, fetch sample_input true_response,
       Settled (Reject 3 econnreset), ConsoleError econnreset, Sleep 500,
       fetch sample_input true_response],
      Exited 0)
   \<and> loop (sample_world succeeds) sample_input (Function succeeds) AwaitPoll 0 900000
       [Resolve 10 (sample_poll ''abc-1'' ''null''), Reject 899900 econnreset,
        Resolve 4 accepted] =
     ([Settled (Resolve 10 (sample_poll ''abc-1'' ''null'')), SetGlobalRequestId (Some ''abc-1''),
       Invoke 0 JNull sample_context, fetch sample_input true_response,
       Settled (Reject 899900 econnreset), ConsoleError econnreset, Sleep 500],
      Exited 0)
   \<and> loop (sample_world returns_bigint) sample_input (Function returns_bigint) AwaitPoll 0
       900000 [Resolve 10 (sample_poll ''abc-1'' ''null''), Resolve 4 accepted] =
     ([Settled (Resolve 10 (sample_poll ''abc-1'' ''null'')), SetGlobalRequestId (Some ''abc-1''),
       Invoke 0 JNull sample_context,
       ConsoleError bigint_error, Sleep 500, ConsoleError bigint_error, Sleep 500],
      Exited 0)"
proof (intro conjI)
  have ctx: "context_of (sample_poll ''abc-1'' ''null'') = sample_context"
    by (simp add: context_of_def sample_poll_def sample_context_def request_id_header_def
        arn_header_def)
  have rid: "awsRequestId sample_context = Some ''abc-1''"
    by (simp add: sample_context_def)
  have parse: "json_parse (sample_world f) (res_body (sample_poll ''abc-1'' ''null''))
      = Some JNull" for f
    by (simp add: sample_defs)
  have ret: "call (sample_world succeeds) (Function succeeds) 0 JNull
      (context_of (sample_poll ''abc-1'' ''null'')) = Returns 5 (JBool True) sample_context"
    by (simp add: call_def succeeds_def ctx)
  have rq: "response_req (sample_world succeeds) sample_context (JBool True)
      = Inr true_response"
    by (simp add: response_req_def true_response_def sample_world_def sample_platform_def
        sample_context_def json_headers_def)
  note th = response_delivery [OF parse ret, where rq = true_response and d = 10
      and t = 900000 and inp = sample_input]
  show "loop (sample_world succeeds) sample_input (Function succeeds) AwaitPoll 0 900000
     [Resolve 10 (sample_poll ''abc-1'' ''null''), Reject 3 econnreset, Reject 7 econnreset,
      Resolve 4 accepted] =
   ([Settled (Resolve 10 (sample_poll ''abc-1'' ''null'')), SetGlobalRequestId (Some ''abc-1''),
     Invoke 0 JNull sample_context, fetch sample_input true_response,
     Settled (Reject 3 econnreset), ConsoleError econnreset, Sleep 500,
     fetch sample_input true_response,
     Settled (Reject 7 econnreset), ConsoleError econnreset, Sleep 500,
     fetch sample_input true_response,
     Settled (Resolve 4 accepted), ClearTimeout, SetTimeout 900000,
     fetch sample_input next_req],
    Running)"
    using rq th [where failures = "[(3, econnreset), (7, econnreset)]" and d' = 4
        and result = accepted and rs = "[]"]
    by (simp add: Let_def ctx rid prepend_def next_poll_def watchdog_ms_def
        del: loop.simps(2,3,4))
  show "loop (sample_world succeeds) sample_input (Function succeeds) AwaitPoll 0 900000
       [Resolve 10 (sample_poll ''abc-1'' ''null''), Reject 3 econnreset, Pending] =
     ([Settled (Resolve 10 (sample_poll ''abc-1'' ''null'')), SetGlobalRequestId (Some ''abc-1''),
       Invoke 0 JNull sample_context, fetch sample_input true_response,
       Settled (Reject 3 econnreset), ConsoleError econnreset, Sleep 500,
       fetch sample_input true_response],
      Exited 0)"
    using rq th [where failures = "[(3, econnreset)]" and r = Pending and rs = "[]"]
    by (simp add: Let_def ctx rid del: loop.simps(2,3,4))
  show "loop (sample_world succeeds) sample_input (Function succeeds) AwaitPoll 0 900000
       [Resolve 10 (sample_poll ''abc-1'' ''null''), Reject 899900 econnreset,
        Resolve 4 accepted] =
     ([Settled (Resolve 10 (sample_poll ''abc-1'' ''null'')), SetGlobalRequestId (Some ''abc-1''),
       Invoke 0 JNull sample_context, fetch sample_input true_response,
       Settled (Reject 899900 econnreset), ConsoleError econnreset, Sleep 500],
      Exited 0)"
    using rq th [where failures = "[]" and d' = 899900 and ex = econnreset
        and rs = "[Resolve 4 accepted]"]
    by (simp add: Let_def ctx rid del: loop.simps(2,3,4))
  have ret': "call (sample_world returns_bigint) (Function returns_bigint) 0 JNull
      (context_of (sample_poll ''abc-1'' ''null'')) = Returns 899000 (JBigInt 1) sample_context"
    by (simp add: call_def returns_bigint_def ctx)
  have bad: "response_req (sample_world returns_bigint) sample_context (JBigInt 1)
      = Inl bigint_error"
    by (simp add: response_req_def sample_world_def sample_platform_def)
  have twice: "stringify_failures bigint_error 990
      = [ConsoleError bigint_error, Sleep 500, ConsoleError bigint_error, Sleep 500]"
    by (simp add: stringify_failures.simps)
  show "loop (sample_world returns_bigint) sample_input (Function returns_bigint) AwaitPoll 0
       900000 [Resolve 10 (sample_poll ''abc-1'' ''null''), Resolve 4 accepted] =
     ([Settled (Resolve 10 (sample_poll ''abc-1'' ''null'')), SetGlobalRequestId (Some ''abc-1''),
       Invoke 0 JNull sample_context,
       ConsoleError bigint_error, Sleep 500, ConsoleError bigint_error, Sleep 500],
      Exited 0)"
    using bad twice
      response_delivery [OF parse ret', where te = bigint_error and d = 10 and t = 900000
        and inp = sample_input and rs = "[Resolve 4 accepted]"]
    by (simp add: ctx rid del: loop.simps(2,3,4))
qed

text \<open>The first attempt fails 899.9 s after it was sent. The failure is logged and the
  wait begins, the watchdog set before the poll fires during it, and the process exits
  with code 0: no retry is sent, though the endpoint would have accepted it.\<close>

theorem response_delivery_counterexample:
  "main (sample_world succeeds) sample_input
     [Resolve 10 (sample_poll ''abc-1'' ''null''), Reject 899900 econnreset, Resolve 4 accepted] =
   ([SetTimeout 900000, fetch sample_input next_req,
     Settled (Resolve 10 (sample_poll ''abc-1'' ''null'')), SetGlobalRequestId (Some ''abc-1''),
     Invoke 0 JNull sample_context, fetch sample_input true_response,
     Settled (Reject 899900 econnreset), ConsoleError econnreset, Sleep 500],
    Exited 0)"
  by (simp add: sample_defs program_defs handler_defs true_response_def)

section \<open>The monitors are not trivial\<close>

text \<open>Traces with a poll during an invocation, with two requests outstanding, with a poll
  after a rejected delivery, with a timer set twice, with another duration, or with a poll
  that no \<^verbatim>\<open>setTimeout\<close> precedes, are rejected.\<close>

lemma monitors_reject:
  "\<not> one_at_a_time any_body Idle
       [fetch sample_input next_req, Settled (Resolve 10 (sample_poll ''abc-1'' ''null'')),
        Invoke 0 JNull sample_context, fetch sample_input next_req]"
  "\<not> one_at_a_time any_body Idle
       [fetch sample_input next_req, Settled (Resolve 10 (sample_poll ''abc-1'' ''null'')),
        Invoke 0 JNull sample_context, fetch sample_input true_response,
        fetch sample_input next_req]"
  "\<not> one_at_a_time any_body Idle
       [fetch sample_input next_req, Settled (Resolve 10 (sample_poll ''abc-1'' ''null'')),
        Invoke 0 JNull sample_context, fetch sample_input true_response,
        Settled (Reject 3 econnreset), fetch sample_input next_req]"
  "\<not> timer_discipline Unset
       [SetTimeout 900000, fetch sample_input next_req, SetTimeout 900000,
        fetch sample_input next_req]"
  "\<not> timer_discipline Unset [SetTimeout 900, fetch sample_input next_req]"
  "\<not> timer_discipline Unset [fetch sample_input next_req]"
  "\<not> timer_discipline Unset
       [SetTimeout 900000, fetch sample_input next_req,
        Settled (Reject 3 econnreset), fetch sample_input next_req]"
  by (simp_all add: fetch_def next_req_def true_response_def any_body_def)

end
